theory Spec2Isabelle
  imports Complex_Main "HOL-Library.AList" "HOL-Library.Sublist"
begin

section \<open>Strings, paths and exceptions\<close>

text \<open>
  A Python \<open>str\<close> is a \<open>string\<close>: one \<open>char\<close> per code point, so that \<open>len\<close> is
  \<open>length\<close> and \<open>c[:10]\<close> is \<open>take 10 c\<close>. Only code points below 256 exist in this
  model; the arrow of the Shapefile warning (U+2192) is written as its three UTF-8 bytes.
\<close>

text \<open>
  \<open>str.lower()\<close> on the modelled code points: it moves the letters A-Z and the
  Latin-1 capitals U+00C0-U+00DE, other than the multiplication sign U+00D7, 32 places
  up and keeps every other code point below 256.
\<close>

definition lower_char :: "char \<Rightarrow> char" where
  "lower_char c =
     (let n = (of_char c :: nat)
      in if (65 \<le> n \<and> n \<le> 90) \<or> (192 \<le> n \<and> n \<le> 222 \<and> n \<noteq> 215) then char_of (n + 32) else c)"

definition lower :: "string \<Rightarrow> string" where
  "lower s = map lower_char s"

definition quoted :: "string \<Rightarrow> string" where
  "quoted s = [CHR 0x27] @ s @ [CHR 0x27]"

definition arrow :: string where
  "arrow = [CHR 0xE2, CHR 0x86, CHR 0x92]"

text \<open>
  Exceptions. The source raises \<open>ValueError\<close> and \<open>RuntimeError\<close> itself and tells
  \<open>ImportError\<close> apart when reading Excel files; every other exception class a library
  call may raise is \<open>OtherError\<close>. \<open>str_exn\<close> is \<open>str(e)\<close>, the text an f-string
  \<open>{e}\<close> prints.
\<close>

datatype exn = ValueError string | RuntimeError string | ImportError string | OtherError string

fun str_exn :: "exn \<Rightarrow> string" where
  "str_exn (ValueError m) = m"
| "str_exn (RuntimeError m) = m"
| "str_exn (ImportError m) = m"
| "str_exn (OtherError m) = m"

section \<open>Feature collections\<close>

text \<open>
  A table cell as pandas holds it: missing (\<open>NaN\<close>/\<open>None\<close>), a number, or text. Numbers
  are an abstract type \<open>'n\<close>: the program never computes with them.
\<close>

datatype 'n cell = NaN | Num 'n | Str string

text \<open>
  A \<open>GeoDataFrame\<close>: the names of the attribute columns (positional, duplicates
  possible, as in pandas), one entry per feature holding the attribute cells and the
  cell of the geometry column, and the CRS (\<open>None\<close> when unknown). The geometry column
  is named \<open>geometry\<close> in every frame the program builds (\<open>gpd.read_file\<close> and
  \<open>GeoDataFrame(df, geometry=...)\<close>), so \<open>list(gdf.columns)\<close> is \<open>gdf_columns\<close>.
\<close>

record ('n, 'g, 'c) gdf =
  columns :: "string list"
  features :: "('n cell list \<times> 'g) list"
  crs :: "'c option"

definition gdf_columns :: "('n, 'g, 'c) gdf \<Rightarrow> string list" where
  "gdf_columns g = columns g @ [''geometry'']"

section \<open>Shapefile field names\<close>

definition shp_warning :: "string \<Rightarrow> string \<Rightarrow> string" where
  "shp_warning c newc =
     ''Field '' @ quoted c @ '' '' @ arrow @ '' '' @ quoted newc @ '' (Shapefile 10-char limit)''"

text \<open>
  \<open>_truncate_fields_for_shp\<close>: the body of the \<open>for\<close> loop, and the loop. The dict
  \<open>mapping\<close> is an association list in insertion order; \<open>mapping[c] = newc\<close> is
  \<open>AList.update\<close>.
\<close>

definition truncate_step ::
  "(string \<times> string) list \<times> string list \<Rightarrow> string \<Rightarrow> (string \<times> string) list \<times> string list" where
  "truncate_step acc c =
     (case acc of (mapping, warnings) \<Rightarrow>
        if length c > 10
        then (let newc = take 10 c
              in (AList.update c newc mapping, warnings @ [shp_warning c newc]))
        else (mapping, warnings))"

definition truncate_fields_for_shp :: "string list \<Rightarrow> (string \<times> string) list \<times> string list" where
  "truncate_fields_for_shp cols = foldl truncate_step ([], []) cols"

text \<open>
  \<open>gdf.rename(columns=mapping)\<close>: every column label that is a key of the dict is
  replaced, position by position. The geometry column is relabelled like the others; it
  is tracked here only through the attribute labels, which is exact as long as
  \<open>geometry\<close> is not a key (it has 8 characters, so the truncation mapping never has it).
\<close>

definition rename_label :: "(string \<times> string) list \<Rightarrow> string \<Rightarrow> string" where
  "rename_label mapping c = (case map_of mapping c of Some n \<Rightarrow> n | None \<Rightarrow> c)"

definition rename_columns :: "(string \<times> string) list \<Rightarrow> ('n, 'g, 'c) gdf \<Rightarrow> ('n, 'g, 'c) gdf" where
  "rename_columns mapping g = g\<lparr>columns := map (rename_label mapping) (columns g)\<rparr>"

section \<open>The geospatial library and the options\<close>

text \<open>
  Everything the program delegates to GeoPandas, Shapely, pyproj, pandas and the
  operating system is a field of the environment \<open>env\<close>; a call that may raise
  returns \<open>exn + 'a\<close> (\<open>Inl\<close> the exception). The geometry operations act on one
  geometry: \<open>GeoSeries.apply\<close>, \<open>buffer\<close>, \<open>simplify\<close> and \<open>to_crs\<close> are element-wise
  and keep the index, and an exception at any element aborts the whole call.
  \<open>lib_make_valid\<close> is the module-level name \<open>make_valid\<close>, \<open>None\<close> when the import
  from Shapely failed. \<open>lib_to_epsg\<close> is \<open>CRS.to_epsg()\<close>, \<open>None\<close> for a CRS without an
  EPSG code. The file system is an abstract state \<open>'w\<close>, passed through every call
  that changes it.
\<close>

type_synonym bytes = string

record 'n dataframe =
  df_columns :: "string list"
  df_rows :: "'n cell list list"

record ('n, 'g, 'c, 'w) env =
  lib_make_valid :: "('g \<Rightarrow> exn + 'g) option"
  lib_buffer :: "real \<Rightarrow> 'g \<Rightarrow> exn + 'g"
  lib_simplify :: "real \<Rightarrow> 'g \<Rightarrow> exn + 'g"
  lib_str_float :: "real \<Rightarrow> string"
  lib_to_epsg :: "'c \<Rightarrow> int option"
  lib_crs_from_epsg :: "int \<Rightarrow> exn + 'c"
  lib_crs_from_string :: "string \<Rightarrow> exn + 'c"
  lib_transform :: "'c \<Rightarrow> 'c \<Rightarrow> 'g \<Rightarrow> exn + 'g"
  lib_str_crs :: "'c \<Rightarrow> string"
  lib_mkdtemp :: "string \<Rightarrow> 'w \<Rightarrow> string \<times> 'w"
  lib_write_file :: "string \<Rightarrow> bytes \<Rightarrow> 'w \<Rightarrow> 'w"
  lib_extractall :: "string \<Rightarrow> string \<Rightarrow> 'w \<Rightarrow> (exn + unit) \<times> 'w"
  lib_rglob :: "string \<Rightarrow> string \<Rightarrow> 'w \<Rightarrow> string list"
  lib_read_file :: "string \<Rightarrow> 'w \<Rightarrow> exn + ('n, 'g, 'c) gdf"
  lib_read_csv :: "string \<Rightarrow> 'w \<Rightarrow> exn + 'n dataframe"
  lib_read_excel :: "string \<Rightarrow> 'w \<Rightarrow> exn + 'n dataframe"
  lib_to_numeric :: "string \<Rightarrow> 'n option"
  lib_point :: "'n cell \<Rightarrow> 'n cell \<Rightarrow> 'g"
  lib_to_json :: "('n, 'g, 'c) gdf \<Rightarrow> exn + bytes"
  lib_to_file :: "('n, 'g, 'c) gdf \<Rightarrow> string \<Rightarrow> string \<Rightarrow> 'w \<Rightarrow> (exn + unit) \<times> 'w"
  lib_read_bytes :: "string \<Rightarrow> 'w \<Rightarrow> exn + bytes"
  lib_mkdir :: "string \<Rightarrow> 'w \<Rightarrow> (exn + unit) \<times> 'w"
  lib_iterdir :: "string \<Rightarrow> 'w \<Rightarrow> string list"
  lib_zip :: "(string \<times> bytes) list \<Rightarrow> bytes"

text \<open>The sidebar widgets the pipeline reads as module-level names.\<close>

record options =
  do_make_valid :: bool
  use_buffer_fix :: bool
  do_simplify :: bool
  simplify_tol :: real
  auto_rename_fields :: bool
  target_epsg :: string

text \<open>A call on every element in order, stopping at the first exception.\<close>

fun mapM :: "('a \<Rightarrow> exn + 'b) \<Rightarrow> 'a list \<Rightarrow> exn + 'b list" where
  "mapM f [] = Inr []"
| "mapM f (x # xs) =
     (case f x of
        Inl e \<Rightarrow> Inl e
      | Inr y \<Rightarrow> (case mapM f xs of Inl e \<Rightarrow> Inl e | Inr ys \<Rightarrow> Inr (y # ys)))"

text \<open>
  The right-hand side of \<open>gdf["geometry"] = ...\<close>: the new geometry column, computed
  in full before the assignment, which then replaces the geometry of every feature.
\<close>

definition apply_geometry ::
  "('g \<Rightarrow> exn + 'g) \<Rightarrow> ('n, 'g, 'c) gdf \<Rightarrow> exn + ('n, 'g, 'c) gdf" where
  "apply_geometry f g =
     (case mapM f (map snd (features g)) of
        Inl e \<Rightarrow> Inl e
      | Inr ys \<Rightarrow> Inr (g\<lparr>features := zip (map fst (features g)) ys\<rparr>))"

section \<open>Geometry conditioning\<close>

text \<open>\<open>_apply_repairs_and_ops\<close>: one definition for each of its three \<open>if\<close> blocks.\<close>

definition make_valid_stage ::
  "('n, 'g, 'c, 'w) env \<Rightarrow> options \<Rightarrow> ('n, 'g, 'c) gdf \<times> string list \<Rightarrow> ('n, 'g, 'c) gdf \<times> string list" where
  "make_valid_stage env opts st =
     (case st of (g, notes) \<Rightarrow>
        (case lib_make_valid env of
           None \<Rightarrow> (g, notes)
         | Some mv \<Rightarrow>
             if do_make_valid opts
             then (case apply_geometry mv g of
                     Inr g' \<Rightarrow> (g', notes @ [''Applied make_valid.''])
                   | Inl e \<Rightarrow> (g, notes @ [''make_valid failed: '' @ str_exn e]))
             else (g, notes)))"

definition buffer_stage ::
  "('n, 'g, 'c, 'w) env \<Rightarrow> options \<Rightarrow> ('n, 'g, 'c) gdf \<times> string list \<Rightarrow> ('n, 'g, 'c) gdf \<times> string list" where
  "buffer_stage env opts st =
     (case st of (g, notes) \<Rightarrow>
        if use_buffer_fix opts
        then (case apply_geometry (lib_buffer env 0) g of
                Inr g' \<Rightarrow> (g', notes @ [''Applied buffer(0) fix.''])
              | Inl e \<Rightarrow> (g, notes @ [''buffer(0) failed: '' @ str_exn e]))
        else (g, notes))"

definition simplify_stage ::
  "('n, 'g, 'c, 'w) env \<Rightarrow> options \<Rightarrow> ('n, 'g, 'c) gdf \<times> string list \<Rightarrow> ('n, 'g, 'c) gdf \<times> string list" where
  "simplify_stage env opts st =
     (case st of (g, notes) \<Rightarrow>
        if do_simplify opts \<and> simplify_tol opts > 0
        then (case apply_geometry (lib_simplify env (simplify_tol opts)) g of
                Inr g' \<Rightarrow>
                  (g', notes @ [''Simplified (tol='' @ lib_str_float env (simplify_tol opts) @ '').''])
              | Inl e \<Rightarrow> (g, notes @ [''Simplify failed: '' @ str_exn e]))
        else (g, notes))"

definition apply_repairs_and_ops ::
  "('n, 'g, 'c, 'w) env \<Rightarrow> options \<Rightarrow> ('n, 'g, 'c) gdf \<Rightarrow> ('n, 'g, 'c) gdf \<times> string list" where
  "apply_repairs_and_ops env opts g =
     simplify_stage env opts (buffer_stage env opts (make_valid_stage env opts (g, [])))"

section \<open>Reprojection\<close>

text \<open>
  \<open>int(epsg)\<close> on a \<open>str\<close>: surrounding whitespace is ignored, then an optional sign
  and decimal digits, where single underscores may stand between digits. The whitespace
  \<open>int\<close> skips is tab, line feed, vertical tab, form feed, carriage return and space,
  and of the code points above 127 the spaces U+0085 and U+00A0; the separators
  U+001C-U+001F are not skipped. A string of more than 4300 digits is refused
  (\<open>sys.int_info.default_max_str_digits\<close>; underscores do not count, leading zeros do).
\<close>

definition is_space :: "char \<Rightarrow> bool" where
  "is_space c =
     (let n = (of_char c :: nat)
      in (9 \<le> n \<and> n \<le> 13) \<or> n = 32 \<or> n = 133 \<or> n = 160)"

definition strip :: "string \<Rightarrow> string" where
  "strip s = rev (dropWhile is_space (rev (dropWhile is_space s)))"

definition is_digit :: "char \<Rightarrow> bool" where
  "is_digit c = (let n = (of_char c :: nat) in 48 \<le> n \<and> n \<le> 57)"

fun digits_ok :: "string \<Rightarrow> bool" where
  "digits_ok [] = False"
| "digits_ok [c] = is_digit c"
| "digits_ok (c # d # cs) =
     (is_digit c \<and> (if d = CHR ''_'' then cs \<noteq> [] \<and> digits_ok cs else digits_ok (d # cs)))"

definition digits_value :: "string \<Rightarrow> int" where
  "digits_value s =
     foldl (\<lambda>acc c. 10 * acc + (int (of_char c) - 48)) 0 (filter (\<lambda>c. c \<noteq> CHR ''_'') s)"

definition max_str_digits :: nat where
  "max_str_digits = 4300"

definition py_int :: "string \<Rightarrow> int option" where
  "py_int s =
     (let t = strip s;
          neg = (t \<noteq> [] \<and> hd t = CHR ''-'');
          body = (if t \<noteq> [] \<and> (hd t = CHR ''-'' \<or> hd t = CHR ''+'') then tl t else t)
      in if digits_ok body \<and> length (filter (\<lambda>c. c \<noteq> CHR ''_'') body) \<le> max_str_digits
         then Some (if neg then - digits_value body else digits_value body)
         else None)"

text \<open>\<open>str(n)\<close> for an \<open>int\<close>, as an f-string prints it.\<close>

function str_nat :: "nat \<Rightarrow> string" where
  "str_nat n = (if n < 10 then [char_of (48 + n)] else str_nat (n div 10) @ [char_of (48 + n mod 10)])"
  by pat_completeness auto
termination
  by (relation "measure (\<lambda>n. n)") auto

declare str_nat.simps [simp del]

definition str_int :: "int \<Rightarrow> string" where
  "str_int i = (if i < 0 then ''-'' @ str_nat (nat (- i)) else str_nat (nat i))"

text \<open>
  \<open>GeoDataFrame.to_crs(tgt)\<close>: the target CRS is built from the code, every geometry
  is transformed from the frame's CRS to it, and the result carries the target CRS; the
  attribute columns are not touched. The caller has checked that the frame has a CRS.
\<close>

definition to_crs ::
  "('n, 'g, 'c, 'w) env \<Rightarrow> ('n, 'g, 'c) gdf \<Rightarrow> 'c \<Rightarrow> int \<Rightarrow> exn + ('n, 'g, 'c) gdf" where
  "to_crs env g src tgt =
     (case lib_crs_from_epsg env tgt of
        Inl e \<Rightarrow> Inl e
      | Inr dst \<Rightarrow>
          (case apply_geometry (lib_transform env src dst) g of
             Inl e \<Rightarrow> Inl e
           | Inr g' \<Rightarrow> Inr (g'\<lparr>crs := Some dst\<rparr>)))"

text \<open>\<open>_reproject\<close>.\<close>

definition reproject ::
  "('n, 'g, 'c, 'w) env \<Rightarrow> ('n, 'g, 'c) gdf \<Rightarrow> string \<Rightarrow> ('n, 'g, 'c) gdf \<times> string option" where
  "reproject env g epsg =
     (case py_int epsg of
        None \<Rightarrow> (g, Some ''Invalid target EPSG; kept original CRS.'')
      | Some tgt \<Rightarrow>
          (case crs g of
             None \<Rightarrow> (g, Some ''Source CRS unknown; cannot reproject.'')
           | Some src \<Rightarrow>
               if lib_to_epsg env src = Some tgt then (g, None)
               else (case to_crs env g src tgt of
                       Inr g' \<Rightarrow> (g', Some (''Reprojected to EPSG:'' @ str_int tgt @ ''.''))
                     | Inl e \<Rightarrow> (g, Some (''Reprojection failed: '' @ str_exn e)))))"

section \<open>Paths\<close>

text \<open>
  \<open>pathlib\<close> paths are strings with \<open>/\<close> as separator. \<open>path_parts\<close> drops empty and
  \<open>.\<close> components as \<open>PurePosixPath\<close> does; \<open>path_name\<close>, \<open>path_suffix\<close> and \<open>path_stem\<close>
  are \<open>Path.name\<close>, \<open>Path.suffix\<close> and \<open>Path.stem\<close> (the suffix starts at the last dot
  of the name unless that dot is its first or last character). \<open>joinpath d n\<close> is
  \<open>d / n\<close>: an absolute right operand replaces the left one.
\<close>

fun split_slash :: "string \<Rightarrow> string list" where
  "split_slash [] = [[]]"
| "split_slash (c # cs) =
     (if c = CHR ''/'' then [] # split_slash cs
      else (case split_slash cs of
              [] \<Rightarrow> [[c]]
            | p # ps \<Rightarrow> (c # p) # ps))"

definition path_parts :: "string \<Rightarrow> string list" where
  "path_parts p = filter (\<lambda>s. s \<noteq> [] \<and> s \<noteq> ''.'') (split_slash p)"

definition path_name :: "string \<Rightarrow> string" where
  "path_name p = (if path_parts p = [] then [] else last (path_parts p))"

definition rfind_dot :: "string \<Rightarrow> nat option" where
  "rfind_dot n =
     (if CHR ''.'' \<in> set n
      then Some (length n - 1 - length (takeWhile (\<lambda>c. c \<noteq> CHR ''.'') (rev n)))
      else None)"

definition path_suffix :: "string \<Rightarrow> string" where
  "path_suffix p =
     (let n = path_name p
      in case rfind_dot n of
           None \<Rightarrow> []
         | Some i \<Rightarrow> if 0 < i \<and> i < length n - 1 then drop i n else [])"

definition path_stem :: "string \<Rightarrow> string" where
  "path_stem p =
     (let n = path_name p
      in case rfind_dot n of
           None \<Rightarrow> n
         | Some i \<Rightarrow> if 0 < i \<and> i < length n - 1 then take i n else n)"

fun join_slash :: "string list \<Rightarrow> string" where
  "join_slash [] = []"
| "join_slash [p] = p"
| "join_slash (p # q # ps) = p @ ''/'' @ join_slash (q # ps)"

definition path_parent :: "string \<Rightarrow> string" where
  "path_parent p =
     (let ps = butlast (path_parts p)
      in if p \<noteq> [] \<and> hd p = CHR ''/'' then ''/'' @ join_slash ps
         else if ps = [] then ''.'' else join_slash ps)"

definition joinpath :: "string \<Rightarrow> string \<Rightarrow> string" where
  "joinpath d n = (if n \<noteq> [] \<and> hd n = CHR ''/'' then n else d @ ''/'' @ n)"

section \<open>Ingestion\<close>

text \<open>\<open>_unzip_if_shapefile\<close> and \<open>_read_vector_any\<close>.\<close>

definition unzip_if_shapefile ::
  "('n, 'g, 'c, 'w) env \<Rightarrow> string \<Rightarrow> string \<Rightarrow> 'w \<Rightarrow> (exn + string option) \<times> 'w" where
  "unzip_if_shapefile env p work w =
     (if lower (path_suffix p) \<noteq> ''.zip'' then (Inr None, w)
      else (case lib_extractall env p work w of
              (Inl e, w') \<Rightarrow> (Inl e, w')
            | (Inr u, w') \<Rightarrow> (Inr (Some work), w')))"

definition read_vector_any ::
  "('n, 'g, 'c, 'w) env \<Rightarrow> string \<Rightarrow> 'w \<Rightarrow> (exn + ('n, 'g, 'c) gdf) \<times> 'w" where
  "read_vector_any env path w =
     (if lower (path_suffix path) = ''.zip''
      then (case unzip_if_shapefile env path (joinpath (path_parent path) ''unzipped'') w of
              (Inl e, w') \<Rightarrow> (Inl e, w')
            | (Inr None, w') \<Rightarrow> (Inl (ValueError ''Failed to unpack shapefile .zip''), w')
            | (Inr (Some shp_dir), w') \<Rightarrow>
                (case lib_rglob env shp_dir ''*.shp'' w' of
                   [] \<Rightarrow> (Inl (ValueError ''No .shp found inside the uploaded .zip''), w')
                 | f # fs \<Rightarrow> (lib_read_file env f w', w')))
      else (lib_read_file env path w, w))"

text \<open>
  \<open>_read_csv_points\<close>. \<open>df[c]\<close> is the column at the first position labelled \<open>c\<close>
  (the labels of a table read by pandas are distinct); a row shorter than the header
  reads as missing there. \<open>dropna(subset=...)\<close> drops a row when any listed cell is
  missing, and \<open>pd.to_numeric(errors="coerce")\<close> keeps a number, parses text with the
  library's number parser and turns unparsable text into a missing cell.
\<close>

definition col_index :: "string list \<Rightarrow> string \<Rightarrow> nat" where
  "col_index cols c = length (takeWhile (\<lambda>x. x \<noteq> c) cols)"

definition cell_at :: "'n cell list \<Rightarrow> nat \<Rightarrow> 'n cell" where
  "cell_at r i = (if i < length r then r ! i else NaN)"

definition get_cell :: "'n dataframe \<Rightarrow> string \<Rightarrow> 'n cell list \<Rightarrow> 'n cell" where
  "get_cell df c r = cell_at r (col_index (df_columns df) c)"

definition dropna :: "string list \<Rightarrow> 'n dataframe \<Rightarrow> 'n dataframe" where
  "dropna subset_cols df =
     df\<lparr>df_rows := filter (\<lambda>r. list_all (\<lambda>c. get_cell df c r \<noteq> NaN) subset_cols) (df_rows df)\<rparr>"

definition to_numeric :: "('n, 'g, 'c, 'w) env \<Rightarrow> 'n cell \<Rightarrow> 'n cell" where
  "to_numeric env v =
     (case v of
        NaN \<Rightarrow> NaN
      | Num x \<Rightarrow> Num x
      | Str s \<Rightarrow> (case lib_to_numeric env s of None \<Rightarrow> NaN | Some x \<Rightarrow> Num x))"

definition coerce_row :: "('n, 'g, 'c, 'w) env \<Rightarrow> string list \<Rightarrow> string \<Rightarrow> 'n cell list \<Rightarrow> 'n cell list" where
  "coerce_row env cols c r =
     (let i = col_index cols c in if i < length r then r[i := to_numeric env (r ! i)] else r)"

text \<open>\<open>df[c] = pd.to_numeric(df[c], errors="coerce")\<close>.\<close>

definition coerce_column :: "('n, 'g, 'c, 'w) env \<Rightarrow> string \<Rightarrow> 'n dataframe \<Rightarrow> 'n dataframe" where
  "coerce_column env c df = df\<lparr>df_rows := map (coerce_row env (df_columns df) c) (df_rows df)\<rparr>"

text \<open>The table is read by \<open>pd.read_csv\<close> or \<open>pd.read_excel\<close>, by the extension.\<close>

definition read_table :: "('n, 'g, 'c, 'w) env \<Rightarrow> string \<Rightarrow> 'w \<Rightarrow> exn + 'n dataframe" where
  "read_table env path w =
     (if lower (path_suffix path) = ''.csv'' then lib_read_csv env path w
      else (case lib_read_excel env path w of
              Inl (ImportError m) \<Rightarrow>
                Inl (RuntimeError (''Reading .xlsx needs '' @ quoted ''openpyxl''
                                   @ ''. Install it or export CSV.''))
            | r \<Rightarrow> r))"

definition read_csv_points ::
  "('n, 'g, 'c, 'w) env \<Rightarrow> string \<Rightarrow> string \<Rightarrow> string \<Rightarrow> string \<Rightarrow> 'w \<Rightarrow> exn + ('n, 'g, 'c) gdf" where
  "read_csv_points env path lat_col lon_col src_epsg w =
     (case read_table env path w of
        Inl e \<Rightarrow> Inl e
      | Inr df0 \<Rightarrow>
          if lat_col \<notin> set (df_columns df0) \<or> lon_col \<notin> set (df_columns df0)
          then Inl (ValueError ''Selected Lat/Lon columns not found.'')
          else (let df1 = dropna [lat_col, lon_col] df0;
                    df2 = coerce_column env lat_col df1;
                    df3 = coerce_column env lon_col df2;
                    df = dropna [lat_col, lon_col] df3
                in case lib_crs_from_string env (''EPSG:'' @ src_epsg) of
                     Inl e \<Rightarrow> Inl e
                   | Inr c \<Rightarrow>
                       Inr \<lparr>columns = df_columns df,
                            features = map (\<lambda>r. (r, lib_point env (get_cell df lon_col r)
                                                               (get_cell df lat_col r)))
                                           (df_rows df),
                            crs = Some c\<rparr>))"

section \<open>Export\<close>

text \<open>
  \<open>GeoDataFrame.set_crs(code, allow_override=True)\<close>: the CRS is replaced by the one
  built from the code; no coordinate is touched.
\<close>

definition set_crs ::
  "('n, 'g, 'c, 'w) env \<Rightarrow> ('n, 'g, 'c) gdf \<Rightarrow> int \<Rightarrow> exn + ('n, 'g, 'c) gdf" where
  "set_crs env g code =
     (case lib_crs_from_epsg env code of
        Inl e \<Rightarrow> Inl e
      | Inr c \<Rightarrow> Inr (g\<lparr>crs := Some c\<rparr>))"

text \<open>
  The first \<open>try\<close> block of the KML branch of \<open>_gdf_to_bytes\<close>; its \<open>except\<close> clause
  passes, so the frame is kept when the relabel raises.
\<close>

definition kml_relabel :: "('n, 'g, 'c, 'w) env \<Rightarrow> ('n, 'g, 'c) gdf \<Rightarrow> ('n, 'g, 'c) gdf" where
  "kml_relabel env g =
     (if crs g = None \<or> (case crs g of None \<Rightarrow> False | Some c \<Rightarrow> lib_to_epsg env c \<noteq> Some 4326)
      then (case set_crs env g 4326 of Inl e \<Rightarrow> g | Inr g' \<Rightarrow> g')
      else g)"

text \<open>
  The shapefile branch up to the driver call: the truncation mapping of
  \<open>list(gdf.columns)\<close>, applied when the option is on and the mapping is not empty.
\<close>

definition shp_rename ::
  "options \<Rightarrow> ('n, 'g, 'c) gdf \<Rightarrow> string list \<Rightarrow> ('n, 'g, 'c) gdf \<times> string list" where
  "shp_rename opts g msgs =
     (case truncate_fields_for_shp (gdf_columns g) of
        (mapping, warns) \<Rightarrow>
          if auto_rename_fields opts \<and> mapping \<noteq> []
          then (rename_columns mapping g, msgs @ warns)
          else (g, msgs))"

text \<open>
  \<open>gdf.to_file(path, driver=...)\<close> followed by \<open>path.read_bytes()\<close>, as the GPKG
  branch does it, and the same inside \<open>try ... except: msgs.append(...); raise\<close> for
  KML and GPX. A result is the outcome (the raised exception, or the bytes and the
  output name), the list \<open>msgs\<close> as it stands when the function is left, and the file
  system.
\<close>

type_synonym 'w export_result = "(exn + bytes \<times> string) \<times> string list \<times> 'w"

definition read_back ::
  "('n, 'g, 'c, 'w) env \<Rightarrow> string \<Rightarrow> string list \<Rightarrow> 'w \<Rightarrow> 'w export_result" where
  "read_back env path msgs w =
     (case lib_read_bytes env path w of
        Inl e \<Rightarrow> (Inl e, msgs, w)
      | Inr bs \<Rightarrow> (Inr (bs, path_name path), msgs, w))"

definition write_plain ::
  "('n, 'g, 'c, 'w) env \<Rightarrow> ('n, 'g, 'c) gdf \<Rightarrow> string \<Rightarrow> string \<Rightarrow> string list \<Rightarrow> 'w
     \<Rightarrow> 'w export_result" where
  "write_plain env g path driver msgs w =
     (case lib_to_file env g path driver w of
        (Inl e, w') \<Rightarrow> (Inl e, msgs, w')
      | (Inr u, w') \<Rightarrow> read_back env path msgs w')"

definition write_noted ::
  "('n, 'g, 'c, 'w) env \<Rightarrow> ('n, 'g, 'c) gdf \<Rightarrow> string \<Rightarrow> string \<Rightarrow> string list \<Rightarrow> 'w
     \<Rightarrow> 'w export_result" where
  "write_noted env g path driver msgs w =
     (case lib_to_file env g path driver w of
        (Inl e, w') \<Rightarrow>
          (Inl e,
           msgs @ [driver @ '' write failed ('' @ str_exn e @ ''); use GeoJSON/GPKG instead.''],
           w')
      | (Inr u, w') \<Rightarrow> read_back env path msgs w')"

text \<open>
  The shapefile branch after the rename: the folder, the driver call, and the zip of
  every file of the folder under its own name.
\<close>

definition write_shapefile ::
  "('n, 'g, 'c, 'w) env \<Rightarrow> ('n, 'g, 'c) gdf \<Rightarrow> string \<Rightarrow> string \<Rightarrow> string list \<Rightarrow> 'w
     \<Rightarrow> 'w export_result" where
  "write_shapefile env g out_dir base msgs w =
     (let shp_folder = joinpath out_dir (base @ ''_shp'')
      in case lib_mkdir env shp_folder w of
           (Inl e, w1) \<Rightarrow> (Inl e, msgs, w1)
         | (Inr u, w1) \<Rightarrow>
             (case lib_to_file env g (joinpath shp_folder (base @ ''.shp''))
                     ''ESRI Shapefile'' w1 of
                (Inl e, w2) \<Rightarrow> (Inl e, msgs, w2)
              | (Inr u, w2) \<Rightarrow>
                  (case mapM (\<lambda>p. case lib_read_bytes env p w2 of
                                     Inl e \<Rightarrow> Inl e
                                   | Inr bs \<Rightarrow> Inr (path_name p, bs))
                             (lib_iterdir env shp_folder w2) of
                     Inl e \<Rightarrow> (Inl e, msgs, w2)
                   | Inr members \<Rightarrow> (Inr (lib_zip env members, base @ ''.zip''), msgs, w2))))"

text \<open>\<open>_gdf_to_bytes\<close>.\<close>

definition gdf_to_bytes ::
  "('n, 'g, 'c, 'w) env \<Rightarrow> options \<Rightarrow> ('n, 'g, 'c) gdf \<Rightarrow> string \<Rightarrow> string \<Rightarrow> 'w
     \<Rightarrow> 'w export_result" where
  "gdf_to_bytes env opts g out_fmt0 base w =
     (let out_fmt = lower out_fmt0;
          msgs = []
      in if out_fmt = ''geojson''
         then (case lib_to_json env g of
                 Inl e \<Rightarrow> (Inl e, msgs, w)
               | Inr bs \<Rightarrow> (Inr (bs, base @ ''.geojson''), msgs, w))
         else (case lib_mkdtemp env ''gisconv_out_'' w of
                 (out_dir, w1) \<Rightarrow>
                   if out_fmt = ''gpkg''
                   then write_plain env g (joinpath out_dir (base @ ''.gpkg'')) ''GPKG'' msgs w1
                   else if out_fmt = ''kml''
                   then write_noted env (kml_relabel env g) (joinpath out_dir (base @ ''.kml''))
                          ''KML'' msgs w1
                   else if out_fmt = ''gpx''
                   then write_noted env g (joinpath out_dir (base @ ''.gpx'')) ''GPX'' msgs w1
                   else if out_fmt = ''shapefile''
                   then (case shp_rename opts g msgs of
                           (g', msgs') \<Rightarrow> write_shapefile env g' out_dir base msgs' w1)
                   else (Inl (ValueError (''Unsupported output format: '' @ out_fmt)), msgs, w1)))"

section \<open>Batch conversion\<close>

text \<open>
  An uploaded file (its name and its bytes), \<open>TAB_INPUTS\<close>, and \<open>_save_upload_to\<close>.
  Creating the scratch directory, saving the upload and writing into the in-memory
  result archive stand outside the \<open>try\<close> of the loop; they are taken to succeed.
\<close>

record upload =
  up_name :: string
  up_data :: bytes

definition TAB_INPUTS :: "string list" where
  "TAB_INPUTS = [''.csv'', ''.xlsx'']"

definition save_upload_to ::
  "('n, 'g, 'c, 'w) env \<Rightarrow> string \<Rightarrow> upload \<Rightarrow> 'w \<Rightarrow> string \<times> 'w" where
  "save_upload_to env temp_dir file w =
     (let out_path = joinpath temp_dir (up_name file)
      in (out_path, lib_write_file env out_path (up_data file) w))"

text \<open>
  \<open>("\\n".join(report_lines) or "No details.").encode("utf-8")\<close>; the text and its
  encoding are the same list of characters here.
\<close>

fun join_lines :: "string list \<Rightarrow> string" where
  "join_lines [] = []"
| "join_lines [l] = l"
| "join_lines (l # m # ls) = l @ [CHR 0x0A] @ join_lines (m # ls)"

definition report_text :: "string list \<Rightarrow> bytes" where
  "report_text report_lines =
     (let t = join_lines report_lines in if t = [] then ''No details.'' else t)"

definition report_name :: "string \<Rightarrow> string" where
  "report_name name_stem = name_stem @ ''_report.txt''"

definition skip_note :: string where
  "skip_note = ''Skipped: CSV/XLSX needs column mapping in single-file wizard mode.''"

text \<open>
  The body of the \<open>try\<close> of the batch loop for a vector input, with its \<open>except\<close>
  clause: the report lines, the entry written into the archive (if any), and the file
  system afterwards.
\<close>

definition convert_upload ::
  "('n, 'g, 'c, 'w) env \<Rightarrow> options \<Rightarrow> string \<Rightarrow> string \<Rightarrow> string \<Rightarrow> 'w
     \<Rightarrow> string list \<times> (string \<times> bytes) option \<times> 'w" where
  "convert_upload env opts out_fmt name_stem src_path w =
     (case read_vector_any env src_path w of
        (Inl e, w1) \<Rightarrow> ([''Read/Process failed: '' @ str_exn e], None, w1)
      | (Inr g0, w1) \<Rightarrow>
          (let lines0 = [''Loaded vector with '' @ str_nat (length (features g0))
                          @ '' features. CRS=''
                          @ (case crs g0 of None \<Rightarrow> ''None'' | Some c \<Rightarrow> lib_str_crs env c)
                          @ ''.''];
               (g1, notes) = apply_repairs_and_ops env opts g0;
               lines1 = lines0 @ notes;
               (g2, reproj_note) = reproject env g1 (target_epsg opts);
               lines2 = (case reproj_note of
                           None \<Rightarrow> lines1
                         | Some n \<Rightarrow> if n = [] then lines1 else lines1 @ [n])
           in case gdf_to_bytes env opts g2 out_fmt name_stem w1 of
                (Inl e, msgs, w2) \<Rightarrow>
                  (lines2 @ [''Read/Process failed: '' @ str_exn e], None, w2)
              | (Inr (out_bytes, out_name), msgs, w2) \<Rightarrow>
                  (lines2 @ msgs @ [''Exported: '' @ out_name],
                   Some (out_name, out_bytes), w2)))"

text \<open>
  One turn of \<open>for uf in uploaded_files\<close>. The state is the list of entries written
  into the result archive so far (\<open>z.writestr\<close> appends one), the list \<open>reports\<close>, and
  the file system.
\<close>

type_synonym 'w batch_state = "(string \<times> bytes) list \<times> (string \<times> string) list \<times> 'w"

definition stage_upload :: "('n, 'g, 'c, 'w) env \<Rightarrow> upload \<Rightarrow> 'w \<Rightarrow> string \<times> 'w" where
  "stage_upload env uf w =
     (case lib_mkdtemp env ''gisconv_batch_'' w of
        (temp_dir, w1) \<Rightarrow> save_upload_to env temp_dir uf w1)"

definition process_upload ::
  "('n, 'g, 'c, 'w) env \<Rightarrow> options \<Rightarrow> string \<Rightarrow> 'w batch_state \<Rightarrow> upload \<Rightarrow> 'w batch_state" where
  "process_upload env opts out_fmt st uf =
     (case st of (z, reports, w) \<Rightarrow>
        (case stage_upload env uf w of
           (src_path, w1) \<Rightarrow>
             (let name_stem = path_stem (up_name uf);
                  rep_name = report_name name_stem
              in if lower (path_suffix src_path) \<in> set TAB_INPUTS
                 then (let rep_text = report_text [skip_note]
                       in (z @ [(rep_name, rep_text)], reports @ [(rep_name, rep_text)], w1))
                 else (case convert_upload env opts out_fmt name_stem src_path w1 of
                         (report_lines, written, w2) \<Rightarrow>
                           (let rep_text = report_text report_lines
                            in ((case written of None \<Rightarrow> z | Some entry \<Rightarrow> z @ [entry])
                                  @ [(rep_name, rep_text)],
                                reports @ [(rep_name, rep_text)], w2))))))"


section \<open>Notions of the specification\<close>

text \<open>The keys of \<open>OUTPUTS\<close>, the five output formats.\<close>

definition OUTPUTS :: "string list" where
  "OUTPUTS = [''geojson'', ''shapefile'', ''kml'', ''gpkg'', ''gpx'']"

text \<open>
  The field name the specification asks for in a shapefile: the first ten characters
  of a name longer than ten characters, every other name as it is.
\<close>

definition shp_field_name :: "string \<Rightarrow> string" where
  "shp_field_name c = (if length c > 10 then take 10 c else c)"

definition long_fields :: "string list \<Rightarrow> string list" where
  "long_fields cols = filter (\<lambda>c. length c > 10) cols"

text \<open>
  A coordinate cell is usable when, after coercion, it holds a number; the rows the
  specification keeps are those whose latitude and longitude are both usable.
\<close>

definition is_number :: "'n cell \<Rightarrow> bool" where
  "is_number v = (case v of Num x \<Rightarrow> True | _ \<Rightarrow> False)"

definition kept_rows ::
  "('n, 'g, 'c, 'w) env \<Rightarrow> 'n dataframe \<Rightarrow> string \<Rightarrow> string \<Rightarrow> 'n cell list list" where
  "kept_rows env df lat_col lon_col =
     filter (\<lambda>r. is_number (to_numeric env (get_cell df lat_col r))
                 \<and> is_number (to_numeric env (get_cell df lon_col r)))
            (df_rows df)"

text \<open>
  What the specification says of one conditioning stage: when it is enabled it runs; if
  the run returns, the collection is replaced and the note of success is the one note;
  if the run raises, the collection is kept and the one note is the failure note with
  the reason; when it is not enabled it does nothing.
\<close>

definition stage_spec ::
  "bool \<Rightarrow> (('n, 'g, 'c) gdf \<Rightarrow> exn + ('n, 'g, 'c) gdf) \<Rightarrow> string \<Rightarrow> string \<Rightarrow> ('n, 'g, 'c) gdf
     \<Rightarrow> ('n, 'g, 'c) gdf \<times> string list" where
  "stage_spec enabled run applied failed g =
     (if enabled
      then (case run g of
              Inr g' \<Rightarrow> (g', [applied])
            | Inl e \<Rightarrow> (g, [failed @ str_exn e]))
      else (g, []))"

text \<open>
  The entries of a result archive are report files, named \<open><stem>_report.txt\<close>, and
  output artifacts, every other entry.
\<close>

definition is_report_name :: "string \<Rightarrow> bool" where
  "is_report_name n = suffix ''_report.txt'' n"

definition report_entries :: "(string \<times> bytes) list \<Rightarrow> (string \<times> bytes) list" where
  "report_entries z = filter (\<lambda>e. is_report_name (fst e)) z"

definition output_entries :: "(string \<times> bytes) list \<Rightarrow> (string \<times> bytes) list" where
  "output_entries z = filter (\<lambda>e. \<not> is_report_name (fst e)) z"


definition fails_at_ingestion :: "('n, 'g, 'c, 'w) env \<Rightarrow> upload \<Rightarrow> 'w \<Rightarrow> bool" where
  "fails_at_ingestion env uf w =
     (case stage_upload env uf w of
        (src_path, w1) \<Rightarrow>
          lower (path_suffix src_path) \<notin> set TAB_INPUTS
          \<and> (case fst (read_vector_any env src_path w1) of Inl e \<Rightarrow> True | Inr g \<Rightarrow> False))"




section \<open>A sample environment\<close>

text \<open>
  A small library and file system on which the functions can be run: geometries are
  points, a polygon or a broken geometry on which every geometry operation raises; a
  CRS is its EPSG code, and only 4326 and 3857 exist; the file system is a counter of
  scratch directories and the list of paths written. Archives named \<open>roads.zip\<close>
  hold a shapefile, every other readable archive holds only a text file, and a file
  named \<open>broken.geojson\<close> cannot be parsed. The GPX driver refuses polygons, and no
  driver writes a broken geometry.
\<close>

datatype sgeom = SPoint "real cell" "real cell" | SPolygon | SBroken

type_synonym sworld = "nat \<times> string list"

definition sample_op :: "sgeom \<Rightarrow> exn + sgeom" where
  "sample_op x = (case x of SBroken \<Rightarrow> Inl (OtherError ''invalid geometry'') | _ \<Rightarrow> Inr x)"

definition sample_frame :: "(real, sgeom, int) gdf" where
  "sample_frame =
     \<lparr>columns = [''name'', ''population_2020'', ''population_2021''],
      features = [([Str ''A'', Num 10, Num 20], SPoint (Num 77.6) (Num 12.9)),
                  ([Str ''B'', Num 30, Num 40], SPolygon)],
      crs = Some 4326\<rparr>"

definition broken_frame :: "(real, sgeom, int) gdf" where
  "broken_frame =
     \<lparr>columns = [''name''],
      features = [([Str ''A''], SPoint (Num 77.6) (Num 12.9)), ([Str ''B''], SBroken)],
      crs = Some 3857\<rparr>"

definition survey_frame :: "(real, sgeom, int) gdf" where
  "survey_frame =
     \<lparr>columns = [''name'', ''population_2020'', ''elevation_metres''],
      features = [([Str ''A'', Num 10, Num 920], SPoint (Num 77.6) (Num 12.9))],
      crs = Some 4326\<rparr>"

definition sample_table :: "real dataframe" where
  "sample_table =
     \<lparr>df_columns = [''lat'', ''lon'', ''name''],
      df_rows = [[Num 12.9, Num 77.6, Str ''A''],
                 [NaN, Num 77.6, Str ''B''],
                 [Num 13.0, Num 77.7, Str ''C'']]\<rparr>"

definition sample_env :: "(real, sgeom, int, sworld) env" where
  "sample_env =
     \<lparr>lib_make_valid = Some sample_op,
      lib_buffer = (\<lambda>d. sample_op),
      lib_simplify = (\<lambda>tol. sample_op),
      lib_str_float = (\<lambda>x. ''2.0''),
      lib_to_epsg = (\<lambda>c. Some c),
      lib_crs_from_epsg =
        (\<lambda>n. if n = 4326 \<or> n = 3857 then Inr n else Inl (OtherError ''unknown EPSG code'')),
      lib_crs_from_string =
        (\<lambda>s. if s = ''EPSG:4326'' then Inr 4326 else Inl (OtherError ''unknown CRS'')),
      lib_transform =
        (\<lambda>src dst x. case x of
                        SPoint a b \<Rightarrow> Inr (SPoint b a)
                      | SPolygon \<Rightarrow> Inr SPolygon
                      | SBroken \<Rightarrow> Inl (OtherError ''invalid geometry'')),
      lib_str_crs = (\<lambda>c. ''EPSG:'' @ str_int c),
      lib_mkdtemp = (\<lambda>prefix w. (''/tmp/'' @ prefix @ str_nat (fst w), (Suc (fst w), snd w))),
      lib_write_file = (\<lambda>p bs w. (fst w, snd w @ [p])),
      lib_extractall =
        (\<lambda>p work w.
           if path_name p = ''roads.zip''
           then (Inr (), (fst w, snd w @ [joinpath work ''roads.dbf'', joinpath work ''roads.shp'']))
           else if path_name p = ''corrupt.zip''
           then (Inl (OtherError ''File is not a zip file''), w)
           else (Inr (), (fst w, snd w @ [joinpath work ''readme.txt'']))),
      lib_rglob =
        (\<lambda>d pat w. filter (\<lambda>f. prefix (d @ ''/'') f \<and> suffix (tl pat) f) (snd w)),
      lib_read_file =
        (\<lambda>p w. if p \<in> set (snd w) \<and> path_name p \<noteq> ''broken.geojson''
                then Inr sample_frame else Inl (OtherError ''cannot open the file'')),
      lib_read_csv = (\<lambda>p w. Inr sample_table),
      lib_read_excel = (\<lambda>p w. Inl (ImportError ''No module named openpyxl'')),
      lib_to_numeric = (\<lambda>s. None),
      lib_point = SPoint,
      lib_to_json = (\<lambda>g. Inr ''{}''),
      lib_to_file =
        (\<lambda>g p driver w.
           if SBroken \<in> set (map snd (features g))
           then (Inl (OtherError ''invalid geometry''), w)
           else if driver = ''GPX'' \<and> SPolygon \<in> set (map snd (features g))
           then (Inl (OtherError ''unsupported geometry type''), w)
           else (Inr (), (fst w, snd w @ [p]))),
      lib_read_bytes =
        (\<lambda>p w. if p \<in> set (snd w) then Inr ''data'' else Inl (OtherError ''no such file'')),
      lib_mkdir = (\<lambda>p w. (Inr (), w)),
      lib_iterdir = (\<lambda>d w. filter (\<lambda>f. prefix (d @ ''/'') f) (snd w)),
      lib_zip = (\<lambda>members. concat (map fst members))\<rparr>"

text \<open>
  The same environment with the shapefile driver of GeoPandas, whose \<open>to_file\<close>
  raises \<open>ValueError\<close> for a frame with a repeated column name.
\<close>

definition strict_env :: "(real, sgeom, int, sworld) env" where
  "strict_env =
     sample_env\<lparr>lib_to_file :=
       (\<lambda>g p driver w.
          if \<not> distinct (gdf_columns g)
          then (Inl (ValueError ''GeoDataFrame cannot contain duplicated column names.''), w)
          else lib_to_file sample_env g p driver w)\<rparr>"


definition thorough_options :: options where
  "thorough_options =
     \<lparr>do_make_valid = True, use_buffer_fix = True, do_simplify = True, simplify_tol = 2,
      auto_rename_fields = True, target_epsg = ''3857''\<rparr>"

definition sample_options :: options where
  "sample_options =
     \<lparr>do_make_valid = True, use_buffer_fix = False, do_simplify = False, simplify_tol = 0,
      auto_rename_fields = True, target_epsg = ''4326''\<rparr>"

section \<open>Properties\<close>

lemma lower_literals:
  "lower ''shp'' = ''shp''" "lower ''SHP'' = ''shp''" "lower ''GeoJSON'' = ''geojson''"
  "lower ''kml'' = ''kml''" "lower ''gpx'' = ''gpx''" "lower ''geojson'' = ''geojson''"
  "lower ''gpkg'' = ''gpkg''" "lower ''shapefile'' = ''shapefile''"
  by code_simp+

lemma truncate_foldl_warnings:
  "snd (foldl truncate_step (m, ws) cols) =
     ws @ map (\<lambda>c. shp_warning c (take 10 c)) (filter (\<lambda>c. length c > 10) cols)"
  by (induction cols arbitrary: m ws) (simp_all add: truncate_step_def Let_def)

lemma truncate_foldl_map_of:
  "map_of (fst (foldl truncate_step (m, ws) cols)) c =
     (if c \<in> set cols \<and> length c > 10 then Some (take 10 c) else map_of m c)"
  by (induction cols arbitrary: m ws) (auto simp add: truncate_step_def Let_def update_conv')

lemma truncate_foldl_empty:
  "(fst (foldl truncate_step (m, ws) cols) = []) = (m = [] \<and> (\<forall>c \<in> set cols. length c \<le> 10))"
proof (induction cols arbitrary: m ws)
  case Nil
  then show ?case by simp
next
  case (Cons c cols)
  have "AList.update c (take 10 c) m \<noteq> []"
    by (cases m) (auto simp add: AList.update.simps)
  with Cons show ?case
    by (auto simp add: truncate_step_def Let_def)
qed

subsection \<open>Frame of conditioning and reprojection\<close>

lemma mapM_length: "mapM f xs = Inr ys \<Longrightarrow> length ys = length xs"
  by (induction xs arbitrary: ys) (auto split: sum.splits)

lemma apply_geometry_frame:
  assumes "apply_geometry f g = Inr g'"
  shows "columns g' = columns g" and "map fst (features g') = map fst (features g)"
    and "crs g' = crs g" and "mapM f (map snd (features g)) = Inr (map snd (features g'))"
  using assms by (auto simp add: apply_geometry_def dest: mapM_length split: sum.splits)

lemma to_crs_frame:
  assumes "to_crs env g src tgt = Inr g'"
  shows "columns g' = columns g" and "map fst (features g') = map fst (features g)"
  using assms by (auto simp add: to_crs_def dest: apply_geometry_frame split: sum.splits)

lemma to_crs_result:
  assumes "to_crs env g src tgt = Inr g'"
  shows "\<exists>dst. lib_crs_from_epsg env tgt = Inr dst \<and> crs g' = Some dst \<and>
           mapM (lib_transform env src dst) (map snd (features g)) = Inr (map snd (features g'))"
  using assms by (auto simp add: to_crs_def dest: apply_geometry_frame split: sum.splits)

lemma make_valid_stage_frame:
  "columns (fst (make_valid_stage env opts (g, ns))) = columns g \<and>
   map fst (features (fst (make_valid_stage env opts (g, ns)))) = map fst (features g) \<and>
   crs (fst (make_valid_stage env opts (g, ns))) = crs g"
  by (auto simp add: make_valid_stage_def dest: apply_geometry_frame split: sum.splits option.splits)

lemma buffer_stage_frame:
  "columns (fst (buffer_stage env opts (g, ns))) = columns g \<and>
   map fst (features (fst (buffer_stage env opts (g, ns)))) = map fst (features g) \<and>
   crs (fst (buffer_stage env opts (g, ns))) = crs g"
  by (auto simp add: buffer_stage_def dest: apply_geometry_frame split: sum.splits)

lemma simplify_stage_frame:
  "columns (fst (simplify_stage env opts (g, ns))) = columns g \<and>
   map fst (features (fst (simplify_stage env opts (g, ns)))) = map fst (features g) \<and>
   crs (fst (simplify_stage env opts (g, ns))) = crs g"
  by (auto simp add: simplify_stage_def dest: apply_geometry_frame split: sum.splits)

lemma apply_repairs_and_ops_frame:
  "columns (fst (apply_repairs_and_ops env opts g)) = columns g \<and>
   map fst (features (fst (apply_repairs_and_ops env opts g))) = map fst (features g) \<and>
   crs (fst (apply_repairs_and_ops env opts g)) = crs g"
proof -
  obtain g1 n1 where s1: "make_valid_stage env opts (g, []) = (g1, n1)" by (cases "make_valid_stage env opts (g, [])")
  obtain g2 n2 where s2: "buffer_stage env opts (g1, n1) = (g2, n2)" by (cases "buffer_stage env opts (g1, n1)")
  from make_valid_stage_frame [of env opts g "[]"] s1
  have f1: "columns g1 = columns g" "map fst (features g1) = map fst (features g)" "crs g1 = crs g" by simp_all
  from buffer_stage_frame [of env opts g1 n1] s2
  have f2: "columns g2 = columns g1" "map fst (features g2) = map fst (features g1)" "crs g2 = crs g1" by simp_all
  from simplify_stage_frame [of env opts g2 n2] f1 f2 s1 s2
  show ?thesis by (simp add: apply_repairs_and_ops_def)
qed

lemma reproject_frame:
  "columns (fst (reproject env g epsg)) = columns g \<and>
   map fst (features (fst (reproject env g epsg))) = map fst (features g)"
  by (auto simp add: reproject_def dest: to_crs_frame split: option.splits sum.splits)

text \<open>
  Claim C9. Geometry conditioning and reprojection keep the number of features, the
  attribute column names and every attribute value: for every collection, option set and
  target, the result of \<open>apply_repairs_and_ops\<close> and of \<open>reproject\<close> has as many
  features as the input, the same column names, and feature by feature the same
  attribute cells. Only the geometry of a feature and the CRS of the collection can
  differ.
\<close>

theorem conditioning_reprojection_frame:
  "length (features (fst (apply_repairs_and_ops env opts g))) = length (features g) \<and>
   columns (fst (apply_repairs_and_ops env opts g)) = columns g \<and>
   map fst (features (fst (apply_repairs_and_ops env opts g))) = map fst (features g) \<and>
   length (features (fst (reproject env g epsg))) = length (features g) \<and>
   columns (fst (reproject env g epsg)) = columns g \<and>
   map fst (features (fst (reproject env g epsg))) = map fst (features g)"
proof -
  let ?a = "fst (apply_repairs_and_ops env opts g)"
  let ?r = "fst (reproject env g epsg)"
  have a: "columns ?a = columns g" "map fst (features ?a) = map fst (features g)"
    using apply_repairs_and_ops_frame [of env opts g] by simp_all
  have r: "columns ?r = columns g" "map fst (features ?r) = map fst (features g)"
    using reproject_frame [of env g epsg] by simp_all
  have "length (features ?a) = length (features g)"
    using a(2) by (rule map_eq_imp_length_eq)
  moreover have "length (features ?r) = length (features g)"
    using r(2) by (rule map_eq_imp_length_eq)
  ultimately show ?thesis using a r by simp
qed

subsection \<open>Shapefile field names\<close>

lemma truncate_map_of:
  "map_of (fst (truncate_fields_for_shp cols)) c =
     (if c \<in> set cols \<and> length c > 10 then Some (take 10 c) else None)"
  by (simp add: truncate_fields_for_shp_def truncate_foldl_map_of)

lemma truncate_warnings:
  "snd (truncate_fields_for_shp cols) = map (\<lambda>c. shp_warning c (take 10 c)) (long_fields cols)"
  by (simp add: truncate_fields_for_shp_def truncate_foldl_warnings long_fields_def)

lemma truncate_empty:
  "(fst (truncate_fields_for_shp cols) = []) = (long_fields cols = [])"
  by (auto simp add: truncate_fields_for_shp_def truncate_foldl_empty long_fields_def
      filter_empty_conv not_less)

lemma long_fields_geometry: "long_fields (gdf_columns g) = long_fields (columns g)"
  by (simp add: long_fields_def gdf_columns_def)

lemma rename_label_truncate:
  "c \<in> set cols \<Longrightarrow> rename_label (fst (truncate_fields_for_shp cols)) c = shp_field_name c"
  by (simp add: rename_label_def truncate_map_of shp_field_name_def)

lemma map_shp_field_name_short:
  "long_fields cols = [] \<Longrightarrow> map shp_field_name cols = cols"
  by (induction cols) (auto simp add: long_fields_def shp_field_name_def split: if_splits)

lemma shp_rename_eq:
  assumes "auto_rename_fields opts"
  shows "shp_rename opts g msgs =
           (g\<lparr>columns := map shp_field_name (columns g)\<rparr>,
            msgs @ map (\<lambda>c. shp_warning c (take 10 c)) (long_fields (columns g)))"
proof (cases "long_fields (columns g) = []")
  case True
  then have "fst (truncate_fields_for_shp (gdf_columns g)) = []"
    by (simp add: truncate_empty long_fields_geometry)
  moreover obtain mapping warns where "truncate_fields_for_shp (gdf_columns g) = (mapping, warns)"
    by (cases "truncate_fields_for_shp (gdf_columns g)")
  ultimately show ?thesis
    using True by (simp add: shp_rename_def map_shp_field_name_short)
next
  case False
  then have ne: "fst (truncate_fields_for_shp (gdf_columns g)) \<noteq> []"
    by (simp add: truncate_empty long_fields_geometry)
  have cols: "map (rename_label (fst (truncate_fields_for_shp (gdf_columns g)))) (columns g)
                = map shp_field_name (columns g)"
    by (rule map_cong) (simp_all add: rename_label_truncate gdf_columns_def)
  obtain mapping warns where tr: "truncate_fields_for_shp (gdf_columns g) = (mapping, warns)"
    by (cases "truncate_fields_for_shp (gdf_columns g)")
  from tr have w: "warns = map (\<lambda>c. shp_warning c (take 10 c)) (long_fields (columns g))"
    using truncate_warnings [of "gdf_columns g"] by (simp add: long_fields_geometry)
  from tr ne cols w assms show ?thesis
    by (simp add: shp_rename_def rename_columns_def)
qed

lemma gdf_to_bytes_shapefile:
  "gdf_to_bytes env opts g ''shapefile'' base w =
     (case lib_mkdtemp env ''gisconv_out_'' w of
        (out_dir, w1) \<Rightarrow>
          write_shapefile env (fst (shp_rename opts g [])) out_dir base (snd (shp_rename opts g [])) w1)"
  by (simp add: gdf_to_bytes_def lower_literals Let_def split: prod.splits)

lemma read_back_msgs: "fst (snd (read_back env path msgs w)) = msgs"
  by (simp add: read_back_def split: sum.splits)

lemma write_shapefile_msgs: "fst (snd (write_shapefile env g out_dir base msgs w)) = msgs"
  by (simp add: write_shapefile_def Let_def split: prod.splits sum.splits)

lemma gdf_to_bytes_shapefile_renamed:
  assumes "auto_rename_fields opts"
  shows "gdf_to_bytes env opts g ''shapefile'' base w =
           (case lib_mkdtemp env ''gisconv_out_'' w of
              (out_dir, w1) \<Rightarrow>
                write_shapefile env (g\<lparr>columns := map shp_field_name (columns g)\<rparr>) out_dir base
                  (map (\<lambda>c. shp_warning c (take 10 c)) (long_fields (columns g))) w1)"
  using shp_rename_eq [OF assms, of g "[]"] by (simp add: gdf_to_bytes_shapefile)

lemma gdf_to_bytes_shapefile_driver:
  assumes "auto_rename_fields opts"
    and "lib_mkdtemp env ''gisconv_out_'' w = (out_dir, w1)"
    and "lib_mkdir env (joinpath out_dir (base @ ''_shp'')) w1 = (Inr u, w2)"
  shows "gdf_to_bytes env opts g ''shapefile'' base w =
           (case lib_to_file env (g\<lparr>columns := map shp_field_name (columns g)\<rparr>)
                   (joinpath (joinpath out_dir (base @ ''_shp'')) (base @ ''.shp''))
                   ''ESRI Shapefile'' w2 of
              (Inl e, w3) \<Rightarrow>
                (Inl e, map (\<lambda>c. shp_warning c (take 10 c)) (long_fields (columns g)), w3)
            | (Inr u', w3) \<Rightarrow>
                (case mapM (\<lambda>p. case lib_read_bytes env p w3 of
                                   Inl e \<Rightarrow> Inl e
                                 | Inr bs \<Rightarrow> Inr (path_name p, bs))
                           (lib_iterdir env (joinpath out_dir (base @ ''_shp'')) w3) of
                   Inl e \<Rightarrow>
                     (Inl e, map (\<lambda>c. shp_warning c (take 10 c)) (long_fields (columns g)), w3)
                 | Inr members \<Rightarrow>
                     (Inr (lib_zip env members, base @ ''.zip''),
                      map (\<lambda>c. shp_warning c (take 10 c)) (long_fields (columns g)), w3)))"
  using assms(2,3)
  by (simp add: gdf_to_bytes_shapefile_renamed [OF assms(1)] write_shapefile_def Let_def)

lemma gdf_to_bytes_shapefile_raises:
  assumes "auto_rename_fields opts"
    and "lib_mkdtemp env ''gisconv_out_'' w = (out_dir, w1)"
    and "lib_mkdir env (joinpath out_dir (base @ ''_shp'')) w1 = (Inr u, w2)"
    and "lib_to_file env (g\<lparr>columns := map shp_field_name (columns g)\<rparr>)
           (joinpath (joinpath out_dir (base @ ''_shp'')) (base @ ''.shp''))
           ''ESRI Shapefile'' w2 = (Inl e, w3)"
  shows "fst (gdf_to_bytes env opts g ''shapefile'' base w) = Inl e"
  using assms(4) by (simp add: gdf_to_bytes_shapefile_driver [OF assms(1,2,3)])

lemma gdf_to_bytes_shapefile_returns:
  assumes "auto_rename_fields opts"
    and "lib_mkdtemp env ''gisconv_out_'' w = (out_dir, w1)"
    and "lib_mkdir env (joinpath out_dir (base @ ''_shp'')) w1 = (Inr u, w2)"
    and "lib_to_file env (g\<lparr>columns := map shp_field_name (columns g)\<rparr>)
           (joinpath (joinpath out_dir (base @ ''_shp'')) (base @ ''.shp''))
           ''ESRI Shapefile'' w2 = (Inr u', w3)"
    and "mapM (\<lambda>p. case lib_read_bytes env p w3 of
                      Inl e \<Rightarrow> Inl e
                    | Inr bs \<Rightarrow> Inr (path_name p, bs))
              (lib_iterdir env (joinpath out_dir (base @ ''_shp'')) w3) = Inr members"
  shows "gdf_to_bytes env opts g ''shapefile'' base w =
           (Inr (lib_zip env members, base @ ''.zip''),
            map (\<lambda>c. shp_warning c (take 10 c)) (long_fields (columns g)), w3)"
  using assms(4,5) by (simp add: gdf_to_bytes_shapefile_driver [OF assms(1,2,3)])

text \<open>
  Claim C4, as amended. With the auto-rename option on, the shapefile export calls
  the ESRI Shapefile driver on the collection in which every attribute name longer than
  10 characters is replaced by exactly its first 10 characters and every other name is
  unchanged. When the driver raises, the export raises the same exception. When the
  driver writes the collection and the written files are read back, the export returns
  the zip of these files under the name \<open><base>.zip\<close> together with exactly one warning
  for each name longer than 10 characters, in column order, and no other note.
\<close>

theorem shapefile_auto_rename:
  assumes "auto_rename_fields opts"
    and "lib_mkdtemp env ''gisconv_out_'' w = (out_dir, w1)"
    and "lib_mkdir env (joinpath out_dir (base @ ''_shp'')) w1 = (Inr u, w2)"
  shows "(\<forall>e w3.
            lib_to_file env (g\<lparr>columns := map shp_field_name (columns g)\<rparr>)
              (joinpath (joinpath out_dir (base @ ''_shp'')) (base @ ''.shp''))
              ''ESRI Shapefile'' w2 = (Inl e, w3) \<longrightarrow>
            fst (gdf_to_bytes env opts g ''shapefile'' base w) = Inl e)
         \<and> (\<forall>u' w3 members.
               lib_to_file env (g\<lparr>columns := map shp_field_name (columns g)\<rparr>)
                 (joinpath (joinpath out_dir (base @ ''_shp'')) (base @ ''.shp''))
                 ''ESRI Shapefile'' w2 = (Inr u', w3)
               \<and> mapM (\<lambda>p. case lib_read_bytes env p w3 of
                                Inl e \<Rightarrow> Inl e
                              | Inr bs \<Rightarrow> Inr (path_name p, bs))
                        (lib_iterdir env (joinpath out_dir (base @ ''_shp'')) w3) = Inr members \<longrightarrow>
               gdf_to_bytes env opts g ''shapefile'' base w =
                 (Inr (lib_zip env members, base @ ''.zip''),
                  map (\<lambda>c. shp_warning c (take 10 c)) (long_fields (columns g)), w3))
         \<and> (\<forall>c. length c > 10 \<longrightarrow> shp_field_name c = take 10 c \<and> length (shp_field_name c) = 10)
         \<and> (\<forall>c. length c \<le> 10 \<longrightarrow> shp_field_name c = c \<and> c \<notin> set (long_fields (columns g)))"
proof (intro conjI allI impI)
  fix e w3
  assume "lib_to_file env (g\<lparr>columns := map shp_field_name (columns g)\<rparr>)
              (joinpath (joinpath out_dir (base @ ''_shp'')) (base @ ''.shp''))
              ''ESRI Shapefile'' w2 = (Inl e, w3)"
  then show "fst (gdf_to_bytes env opts g ''shapefile'' base w) = Inl e"
    by (rule gdf_to_bytes_shapefile_raises [OF assms])
next
  fix u' w3 members
  assume "lib_to_file env (g\<lparr>columns := map shp_field_name (columns g)\<rparr>)
                 (joinpath (joinpath out_dir (base @ ''_shp'')) (base @ ''.shp''))
                 ''ESRI Shapefile'' w2 = (Inr u', w3)
               \<and> mapM (\<lambda>p. case lib_read_bytes env p w3 of
                                Inl e \<Rightarrow> Inl e
                              | Inr bs \<Rightarrow> Inr (path_name p, bs))
                        (lib_iterdir env (joinpath out_dir (base @ ''_shp'')) w3) = Inr members"
  then show "gdf_to_bytes env opts g ''shapefile'' base w =
                 (Inr (lib_zip env members, base @ ''.zip''),
                  map (\<lambda>c. shp_warning c (take 10 c)) (long_fields (columns g)), w3)"
    using gdf_to_bytes_shapefile_returns [OF assms] by blast
qed (simp_all add: shp_field_name_def long_fields_def)

lemma sample_frame_long_fields:
  "long_fields (columns sample_frame) = [''population_2020'', ''population_2021'']"
  by (simp add: long_fields_def sample_frame_def)

lemma sample_frame_field_names:
  "map shp_field_name (columns sample_frame) = [''name'', ''population'', ''population'']"
  by (simp add: shp_field_name_def sample_frame_def)

lemma survey_frame_fields:
  "long_fields (columns survey_frame) = [''population_2020'', ''elevation_metres'']"
  "map shp_field_name (columns survey_frame) = [''name'', ''population'', ''elevation_'']"
  by (simp_all add: long_fields_def shp_field_name_def survey_frame_def)

lemma strict_env_survey_calls:
  "lib_mkdtemp strict_env ''gisconv_out_'' (0, []) = (''/tmp/gisconv_out_0'', (1, []))"
  "lib_mkdir strict_env (joinpath ''/tmp/gisconv_out_0'' (''survey'' @ ''_shp'')) (1, []) = (Inr (), (1, []))"
  "lib_to_file strict_env (survey_frame\<lparr>columns := map shp_field_name (columns survey_frame)\<rparr>)
     (joinpath (joinpath ''/tmp/gisconv_out_0'' (''survey'' @ ''_shp'')) (''survey'' @ ''.shp''))
     ''ESRI Shapefile'' (1, []) = (Inr (), (1, [''/tmp/gisconv_out_0/survey_shp/survey.shp'']))"
  "mapM (\<lambda>p. case lib_read_bytes strict_env p (1, [''/tmp/gisconv_out_0/survey_shp/survey.shp'']) of
                 Inl e \<Rightarrow> Inl e
               | Inr bs \<Rightarrow> Inr (path_name p, bs))
        (lib_iterdir strict_env (joinpath ''/tmp/gisconv_out_0'' (''survey'' @ ''_shp''))
           (1, [''/tmp/gisconv_out_0/survey_shp/survey.shp''])) = Inr [(''survey.shp'', ''data'')]"
  "lib_zip strict_env [(''survey.shp'', ''data'')] = ''survey.shp''"
  by code_simp+

theorem shapefile_auto_rename_witness:
  "auto_rename_fields sample_options
   \<and> map shp_field_name (columns survey_frame) = [''name'', ''population'', ''elevation_'']
   \<and> gdf_to_bytes strict_env sample_options survey_frame ''shapefile'' ''survey'' (0, []) =
       (Inr (''survey.shp'', ''survey.zip''),
        [shp_warning ''population_2020'' ''population'',
         shp_warning ''elevation_metres'' ''elevation_''],
        (1, [''/tmp/gisconv_out_0/survey_shp/survey.shp'']))"
proof -
  have h: "auto_rename_fields sample_options"
    by (simp add: sample_options_def)
  note t = shapefile_auto_rename [OF h strict_env_survey_calls(1) strict_env_survey_calls(2),
             of survey_frame, THEN conjunct2, THEN conjunct1, rule_format,
             OF conjI, OF strict_env_survey_calls(3) strict_env_survey_calls(4)]
  from t h show ?thesis
    by (simp add: survey_frame_fields strict_env_survey_calls(5))
qed

text \<open>
  The claim as stated fails when two long names share their first 10 characters and
  the driver is the one of GeoPandas: the sample collection has two names longer than
  10 characters, and its conversion writes no artifact, so there is no output schema,
  and the report of the job holds no warning note.
\<close>

theorem shapefile_auto_rename_counterexample:
  "auto_rename_fields sample_options
   \<and> long_fields (columns sample_frame) = [''population_2020'', ''population_2021'']
   \<and> convert_upload strict_env sample_options ''shapefile'' ''roads''
        ''/tmp/gisconv_batch_0/roads.geojson'' (1, [''/tmp/gisconv_batch_0/roads.geojson'']) =
       ([''Loaded vector with 2 features. CRS=EPSG:4326.'', ''Applied make_valid.'',
         ''Read/Process failed: GeoDataFrame cannot contain duplicated column names.''],
        None, (2, [''/tmp/gisconv_batch_0/roads.geojson'']))"
proof -
  have "convert_upload strict_env sample_options ''shapefile'' ''roads''
        ''/tmp/gisconv_batch_0/roads.geojson'' (1, [''/tmp/gisconv_batch_0/roads.geojson'']) =
       ([''Loaded vector with 2 features. CRS=EPSG:4326.'', ''Applied make_valid.'',
         ''Read/Process failed: GeoDataFrame cannot contain duplicated column names.''],
        None, (2, [''/tmp/gisconv_batch_0/roads.geojson'']))"
    by code_simp
  then show ?thesis
    by (simp add: sample_options_def sample_frame_long_fields)
qed

text \<open>
  Claim C10, as amended. The truncation is not injective: when two different attribute
  names longer than 10 characters share their first 10 characters, the mapping sends
  both to that one name and the renamed collection has a repeated column name. The
  application itself neither detects this nor reports it: its only notes are the
  truncation warnings, one for each long name, and it calls the shapefile driver on the
  collection with the repeated name. A driver that refuses such a collection makes the
  export raise the driver's exception; with a driver that writes it, the export returns
  with the truncation warnings as its notes.
\<close>

theorem shapefile_truncation_collision:
  assumes "auto_rename_fields opts"
    and "c1 \<in> set (columns g)" and "c2 \<in> set (columns g)" and "c1 \<noteq> c2"
    and "length c1 > 10" and "length c2 > 10" and "take 10 c1 = take 10 c2"
  shows "map_of (fst (truncate_fields_for_shp (gdf_columns g))) c1 = Some (take 10 c1)
         \<and> map_of (fst (truncate_fields_for_shp (gdf_columns g))) c2 = Some (take 10 c1)
         \<and> \<not> distinct (map shp_field_name (columns g))
         \<and> shp_rename opts g [] =
             (g\<lparr>columns := map shp_field_name (columns g)\<rparr>,
              map (\<lambda>c. shp_warning c (take 10 c)) (long_fields (columns g)))
         \<and> (\<forall>out_dir w1 u w2 e w3.
               lib_mkdtemp env ''gisconv_out_'' w = (out_dir, w1)
               \<and> lib_mkdir env (joinpath out_dir (base @ ''_shp'')) w1 = (Inr u, w2)
               \<and> lib_to_file env (g\<lparr>columns := map shp_field_name (columns g)\<rparr>)
                    (joinpath (joinpath out_dir (base @ ''_shp'')) (base @ ''.shp''))
                    ''ESRI Shapefile'' w2 = (Inl e, w3) \<longrightarrow>
               fst (gdf_to_bytes env opts g ''shapefile'' base w) = Inl e)
         \<and> (\<forall>out_dir w1 u w2 u' w3 members.
               lib_mkdtemp env ''gisconv_out_'' w = (out_dir, w1)
               \<and> lib_mkdir env (joinpath out_dir (base @ ''_shp'')) w1 = (Inr u, w2)
               \<and> lib_to_file env (g\<lparr>columns := map shp_field_name (columns g)\<rparr>)
                    (joinpath (joinpath out_dir (base @ ''_shp'')) (base @ ''.shp''))
                    ''ESRI Shapefile'' w2 = (Inr u', w3)
               \<and> mapM (\<lambda>p. case lib_read_bytes env p w3 of
                                Inl e \<Rightarrow> Inl e
                              | Inr bs \<Rightarrow> Inr (path_name p, bs))
                        (lib_iterdir env (joinpath out_dir (base @ ''_shp'')) w3) = Inr members \<longrightarrow>
               gdf_to_bytes env opts g ''shapefile'' base w =
                 (Inr (lib_zip env members, base @ ''.zip''),
                  map (\<lambda>c. shp_warning c (take 10 c)) (long_fields (columns g)), w3))"
proof -
  have m1: "map_of (fst (truncate_fields_for_shp (gdf_columns g))) c1 = Some (take 10 c1)"
    using assms(2,5) by (simp add: truncate_map_of gdf_columns_def)
  have m2: "map_of (fst (truncate_fields_for_shp (gdf_columns g))) c2 = Some (take 10 c1)"
    using assms(3,6,7) by (simp add: truncate_map_of gdf_columns_def)
  have "shp_field_name c1 = shp_field_name c2"
    using assms(5,6,7) by (simp add: shp_field_name_def)
  with assms(2,3,4) have "\<not> inj_on shp_field_name (set (columns g))"
    by (auto simp add: inj_on_def)
  then have d: "\<not> distinct (map shp_field_name (columns g))"
    by (simp add: distinct_map)
  note n = shp_rename_eq [OF assms(1), of g "[]", simplified]
  have r: "\<forall>out_dir w1 u w2 e w3.
               lib_mkdtemp env ''gisconv_out_'' w = (out_dir, w1)
               \<and> lib_mkdir env (joinpath out_dir (base @ ''_shp'')) w1 = (Inr u, w2)
               \<and> lib_to_file env (g\<lparr>columns := map shp_field_name (columns g)\<rparr>)
                    (joinpath (joinpath out_dir (base @ ''_shp'')) (base @ ''.shp''))
                    ''ESRI Shapefile'' w2 = (Inl e, w3) \<longrightarrow>
               fst (gdf_to_bytes env opts g ''shapefile'' base w) = Inl e"
  proof (intro allI impI, elim conjE)
    fix out_dir w1 u w2 e w3
    assume "lib_mkdtemp env ''gisconv_out_'' w = (out_dir, w1)"
      and "lib_mkdir env (joinpath out_dir (base @ ''_shp'')) w1 = (Inr u, w2)"
      and "lib_to_file env (g\<lparr>columns := map shp_field_name (columns g)\<rparr>)
             (joinpath (joinpath out_dir (base @ ''_shp'')) (base @ ''.shp''))
             ''ESRI Shapefile'' w2 = (Inl e, w3)"
    then show "fst (gdf_to_bytes env opts g ''shapefile'' base w) = Inl e"
      by (rule gdf_to_bytes_shapefile_raises [OF assms(1)])
  qed
  have s: "\<forall>out_dir w1 u w2 u' w3 members.
               lib_mkdtemp env ''gisconv_out_'' w = (out_dir, w1)
               \<and> lib_mkdir env (joinpath out_dir (base @ ''_shp'')) w1 = (Inr u, w2)
               \<and> lib_to_file env (g\<lparr>columns := map shp_field_name (columns g)\<rparr>)
                    (joinpath (joinpath out_dir (base @ ''_shp'')) (base @ ''.shp''))
                    ''ESRI Shapefile'' w2 = (Inr u', w3)
               \<and> mapM (\<lambda>p. case lib_read_bytes env p w3 of
                                Inl e \<Rightarrow> Inl e
                              | Inr bs \<Rightarrow> Inr (path_name p, bs))
                        (lib_iterdir env (joinpath out_dir (base @ ''_shp'')) w3) = Inr members \<longrightarrow>
               gdf_to_bytes env opts g ''shapefile'' base w =
                 (Inr (lib_zip env members, base @ ''.zip''),
                  map (\<lambda>c. shp_warning c (take 10 c)) (long_fields (columns g)), w3)"
  proof (intro allI impI, elim conjE)
    fix out_dir w1 u w2 u' w3 members
    assume "lib_mkdtemp env ''gisconv_out_'' w = (out_dir, w1)"
      and "lib_mkdir env (joinpath out_dir (base @ ''_shp'')) w1 = (Inr u, w2)"
      and "lib_to_file env (g\<lparr>columns := map shp_field_name (columns g)\<rparr>)
             (joinpath (joinpath out_dir (base @ ''_shp'')) (base @ ''.shp''))
             ''ESRI Shapefile'' w2 = (Inr u', w3)"
      and "mapM (\<lambda>p. case lib_read_bytes env p w3 of
                        Inl e \<Rightarrow> Inl e
                      | Inr bs \<Rightarrow> Inr (path_name p, bs))
                (lib_iterdir env (joinpath out_dir (base @ ''_shp'')) w3) = Inr members"
    then show "gdf_to_bytes env opts g ''shapefile'' base w =
                 (Inr (lib_zip env members, base @ ''.zip''),
                  map (\<lambda>c. shp_warning c (take 10 c)) (long_fields (columns g)), w3)"
      by (rule gdf_to_bytes_shapefile_returns [OF assms(1)])
  qed
  show ?thesis
    by (rule conjI m1 m2 d n r s)+
qed

lemma sample_frame_collision_calls:
  "lib_mkdtemp strict_env ''gisconv_out_'' (0, []) = (''/tmp/gisconv_out_0'', (1, []))"
  "lib_mkdir strict_env (joinpath ''/tmp/gisconv_out_0'' (''roads'' @ ''_shp'')) (1, []) = (Inr (), (1, []))"
  "lib_to_file strict_env (sample_frame\<lparr>columns := map shp_field_name (columns sample_frame)\<rparr>)
     (joinpath (joinpath ''/tmp/gisconv_out_0'' (''roads'' @ ''_shp'')) (''roads'' @ ''.shp''))
     ''ESRI Shapefile'' (1, []) =
     (Inl (ValueError ''GeoDataFrame cannot contain duplicated column names.''), (1, []))"
  "lib_mkdtemp sample_env ''gisconv_out_'' (0, []) = (''/tmp/gisconv_out_0'', (1, []))"
  "lib_mkdir sample_env (joinpath ''/tmp/gisconv_out_0'' (''roads'' @ ''_shp'')) (1, []) = (Inr (), (1, []))"
  "lib_to_file sample_env (sample_frame\<lparr>columns := map shp_field_name (columns sample_frame)\<rparr>)
     (joinpath (joinpath ''/tmp/gisconv_out_0'' (''roads'' @ ''_shp'')) (''roads'' @ ''.shp''))
     ''ESRI Shapefile'' (1, []) = (Inr (), (1, [''/tmp/gisconv_out_0/roads_shp/roads.shp'']))"
  "mapM (\<lambda>p. case lib_read_bytes sample_env p (1, [''/tmp/gisconv_out_0/roads_shp/roads.shp'']) of
                 Inl e \<Rightarrow> Inl e
               | Inr bs \<Rightarrow> Inr (path_name p, bs))
        (lib_iterdir sample_env (joinpath ''/tmp/gisconv_out_0'' (''roads'' @ ''_shp''))
           (1, [''/tmp/gisconv_out_0/roads_shp/roads.shp''])) = Inr [(''roads.shp'', ''data'')]"
  "lib_zip sample_env [(''roads.shp'', ''data'')] = ''roads.shp''"
  by code_simp+

theorem shapefile_truncation_collision_witness:
  "''population_2020'' \<noteq> ''population_2021''
   \<and> take 10 ''population_2020'' = take 10 ''population_2021''
   \<and> map_of (fst (truncate_fields_for_shp (gdf_columns sample_frame))) ''population_2020''
       = Some ''population''
   \<and> map_of (fst (truncate_fields_for_shp (gdf_columns sample_frame))) ''population_2021''
       = Some ''population''
   \<and> map shp_field_name (columns sample_frame) = [''name'', ''population'', ''population'']
   \<and> snd (shp_rename sample_options sample_frame []) =
       [shp_warning ''population_2020'' ''population'', shp_warning ''population_2021'' ''population'']
   \<and> fst (gdf_to_bytes strict_env sample_options sample_frame ''shapefile'' ''roads'' (0, [])) =
       Inl (ValueError ''GeoDataFrame cannot contain duplicated column names.'')
   \<and> gdf_to_bytes sample_env sample_options sample_frame ''shapefile'' ''roads'' (0, []) =
       (Inr (''roads.shp'', ''roads.zip''),
        [shp_warning ''population_2020'' ''population'', shp_warning ''population_2021'' ''population''],
        (1, [''/tmp/gisconv_out_0/roads_shp/roads.shp'']))"
proof -
  have h: "auto_rename_fields sample_options"
    by (simp add: sample_options_def)
  have c1: "''population_2020'' \<in> set (columns sample_frame)"
    and c2: "''population_2021'' \<in> set (columns sample_frame)"
    by (simp_all add: sample_frame_def)
  have ne: "''population_2020'' \<noteq> ''population_2021''" by simp
  have l1: "length ''population_2020'' > 10" and l2: "length ''population_2021'' > 10"
    by simp_all
  have t: "take 10 ''population_2020'' = take 10 ''population_2021''" by simp
  note strict = shapefile_truncation_collision [OF h c1 c2 ne l1 l2 t, of strict_env "(0, [])" "''roads''"]
  note lenient = shapefile_truncation_collision [OF h c1 c2 ne l1 l2 t, of sample_env "(0, [])" "''roads''"]
  from strict have a: "map_of (fst (truncate_fields_for_shp (gdf_columns sample_frame))) ''population_2020''
       = Some ''population''"
    and b: "map_of (fst (truncate_fields_for_shp (gdf_columns sample_frame))) ''population_2021''
       = Some ''population''"
    and n: "snd (shp_rename sample_options sample_frame []) =
       [shp_warning ''population_2020'' ''population'', shp_warning ''population_2021'' ''population'']"
    by (simp_all add: sample_frame_long_fields)
  from strict have "lib_mkdtemp strict_env ''gisconv_out_'' (0, []) = (''/tmp/gisconv_out_0'', (1, []))
               \<and> lib_mkdir strict_env (joinpath ''/tmp/gisconv_out_0'' (''roads'' @ ''_shp'')) (1, []) = (Inr (), (1, []))
               \<and> lib_to_file strict_env (sample_frame\<lparr>columns := map shp_field_name (columns sample_frame)\<rparr>)
                    (joinpath (joinpath ''/tmp/gisconv_out_0'' (''roads'' @ ''_shp'')) (''roads'' @ ''.shp''))
                    ''ESRI Shapefile'' (1, []) =
                    (Inl (ValueError ''GeoDataFrame cannot contain duplicated column names.''), (1, [])) \<longrightarrow>
               fst (gdf_to_bytes strict_env sample_options sample_frame ''shapefile'' ''roads'' (0, [])) =
                 Inl (ValueError ''GeoDataFrame cannot contain duplicated column names.'')"
    by blast
  then have r: "fst (gdf_to_bytes strict_env sample_options sample_frame ''shapefile'' ''roads'' (0, [])) =
                 Inl (ValueError ''GeoDataFrame cannot contain duplicated column names.'')"
    using sample_frame_collision_calls(1,2,3) by blast
  from lenient have "lib_mkdtemp sample_env ''gisconv_out_'' (0, []) = (''/tmp/gisconv_out_0'', (1, []))
               \<and> lib_mkdir sample_env (joinpath ''/tmp/gisconv_out_0'' (''roads'' @ ''_shp'')) (1, []) = (Inr (), (1, []))
               \<and> lib_to_file sample_env (sample_frame\<lparr>columns := map shp_field_name (columns sample_frame)\<rparr>)
                    (joinpath (joinpath ''/tmp/gisconv_out_0'' (''roads'' @ ''_shp'')) (''roads'' @ ''.shp''))
                    ''ESRI Shapefile'' (1, []) = (Inr (), (1, [''/tmp/gisconv_out_0/roads_shp/roads.shp'']))
               \<and> mapM (\<lambda>p. case lib_read_bytes sample_env p (1, [''/tmp/gisconv_out_0/roads_shp/roads.shp'']) of
                                Inl e \<Rightarrow> Inl e
                              | Inr bs \<Rightarrow> Inr (path_name p, bs))
                        (lib_iterdir sample_env (joinpath ''/tmp/gisconv_out_0'' (''roads'' @ ''_shp''))
                           (1, [''/tmp/gisconv_out_0/roads_shp/roads.shp''])) = Inr [(''roads.shp'', ''data'')] \<longrightarrow>
               gdf_to_bytes sample_env sample_options sample_frame ''shapefile'' ''roads'' (0, []) =
                 (Inr (lib_zip sample_env [(''roads.shp'', ''data'')], ''roads'' @ ''.zip''),
                  map (\<lambda>c. shp_warning c (take 10 c)) (long_fields (columns sample_frame)),
                  (1, [''/tmp/gisconv_out_0/roads_shp/roads.shp'']))"
    by blast
  then have s: "gdf_to_bytes sample_env sample_options sample_frame ''shapefile'' ''roads'' (0, []) =
       (Inr (''roads.shp'', ''roads.zip''),
        [shp_warning ''population_2020'' ''population'', shp_warning ''population_2021'' ''population''],
        (1, [''/tmp/gisconv_out_0/roads_shp/roads.shp'']))"
    using sample_frame_collision_calls(4,5,6,7)
    by (simp add: sample_frame_collision_calls(8) sample_frame_long_fields)
  from ne t a b n r s sample_frame_field_names show ?thesis
    by (intro conjI)
qed

text \<open>
  The claim as stated fails with the driver of GeoPandas: on the sample collection the
  truncated names clash, and the export raises the driver's error about the duplicated
  column names, so the collision is detected and stops the export.
\<close>

theorem shapefile_truncation_collision_counterexample:
  "\<not> distinct (map shp_field_name (columns sample_frame))
   \<and> fst (gdf_to_bytes strict_env sample_options sample_frame ''shapefile'' ''roads'' (0, [])) =
       Inl (ValueError ''GeoDataFrame cannot contain duplicated column names.'')"
proof -
  have "fst (gdf_to_bytes strict_env sample_options sample_frame ''shapefile'' ''roads'' (0, [])) =
       Inl (ValueError ''GeoDataFrame cannot contain duplicated column names.'')"
    by code_simp
  then show ?thesis
    by (simp add: sample_frame_field_names)
qed


subsection \<open>Export formats\<close>

lemma gdf_to_bytes_unsupported:
  assumes "lower out_fmt \<notin> set OUTPUTS"
  shows "gdf_to_bytes env opts g out_fmt base w =
           (Inl (ValueError (''Unsupported output format: '' @ lower out_fmt)), [],
            snd (lib_mkdtemp env ''gisconv_out_'' w))"
  using assms by (simp add: gdf_to_bytes_def OUTPUTS_def Let_def split: prod.splits)

lemma gdf_to_bytes_kml:
  assumes "lower out_fmt = ''kml''"
  shows "gdf_to_bytes env opts g out_fmt base w =
           (case lib_mkdtemp env ''gisconv_out_'' w of
              (out_dir, w1) \<Rightarrow>
                write_noted env (kml_relabel env g) (joinpath out_dir (base @ ''.kml'')) ''KML'' [] w1)"
  using assms by (simp add: gdf_to_bytes_def Let_def split: prod.splits)

lemma gdf_to_bytes_gpx:
  assumes "lower out_fmt = ''gpx''"
  shows "gdf_to_bytes env opts g out_fmt base w =
           (case lib_mkdtemp env ''gisconv_out_'' w of
              (out_dir, w1) \<Rightarrow>
                write_noted env g (joinpath out_dir (base @ ''.gpx'')) ''GPX'' [] w1)"
  using assms by (simp add: gdf_to_bytes_def Let_def split: prod.splits)

lemma write_noted_failure:
  assumes "lib_to_file env g path driver w = (Inl e, w')"
  shows "write_noted env g path driver msgs w =
           (Inl e, msgs @ [driver @ '' write failed ('' @ str_exn e @ ''); use GeoJSON/GPKG instead.''], w')"
  using assms by (simp add: write_noted_def)

text \<open>
  Claim C6, as amended. The export lower-cases the format key first. It fails with
  \<open>ValueError("Unsupported output format: ...")\<close>, the specification's
  \<open>UnsupportedFormat\<close>, for every key whose lower-cased form is none of the five
  supported keys, in particular for \<open>shp\<close>. For KML and GPX, when the driver raises,
  the export raises that same exception to its caller.
\<close>

theorem export_unsupported_and_reraise:
  "(lower out_fmt \<notin> set OUTPUTS \<longrightarrow>
      fst (gdf_to_bytes env opts g out_fmt base w) =
        Inl (ValueError (''Unsupported output format: '' @ lower out_fmt)))
   \<and> fst (gdf_to_bytes env opts g ''shp'' base w) =
        Inl (ValueError ''Unsupported output format: shp'')
   \<and> (lower out_fmt = ''kml'' \<and> lib_mkdtemp env ''gisconv_out_'' w = (out_dir, w1)
        \<and> lib_to_file env (kml_relabel env g) (joinpath out_dir (base @ ''.kml'')) ''KML'' w1
            = (Inl e, w2) \<longrightarrow>
      fst (gdf_to_bytes env opts g out_fmt base w) = Inl e)
   \<and> (lower out_fmt = ''gpx'' \<and> lib_mkdtemp env ''gisconv_out_'' w = (out_dir, w1)
        \<and> lib_to_file env g (joinpath out_dir (base @ ''.gpx'')) ''GPX'' w1 = (Inl e, w2) \<longrightarrow>
      fst (gdf_to_bytes env opts g out_fmt base w) = Inl e)"
proof -
  have "fst (gdf_to_bytes env opts g ''shp'' base w) =
          Inl (ValueError ''Unsupported output format: shp'')"
    by (simp add: gdf_to_bytes_unsupported lower_literals OUTPUTS_def)
  then show ?thesis
    by (simp add: gdf_to_bytes_unsupported gdf_to_bytes_kml gdf_to_bytes_gpx write_noted_failure)
qed

text \<open>
  The claim as stated fails in two ways. A key that differs from a supported one only
  in the case of its letters is accepted: \<open>GeoJSON\<close> is not one of the five keys, and
  the export succeeds. And the note that suggests GeoJSON/GPKG is appended to a list
  that is local to the export and is dropped when the exception leaves it: the report
  of a job whose GPX export fails holds the load line, the conditioning note and the
  failure line, and no such note.
\<close>

theorem export_format_key_case_counterexample:
  "''GeoJSON'' \<notin> set OUTPUTS
   \<and> fst (gdf_to_bytes sample_env sample_options sample_frame ''GeoJSON'' ''a'' (0, []))
       = Inr (''{}'', ''a.geojson'')
   \<and> convert_upload sample_env sample_options ''gpx'' ''a''
        ''/tmp/gisconv_batch_0/a.geojson'' (1, [''/tmp/gisconv_batch_0/a.geojson'']) =
       ([''Loaded vector with 2 features. CRS=EPSG:4326.'', ''Applied make_valid.'',
         ''Read/Process failed: unsupported geometry type''],
        None, (2, [''/tmp/gisconv_batch_0/a.geojson'']))"
proof -
  have "convert_upload sample_env sample_options ''gpx'' ''a''
        ''/tmp/gisconv_batch_0/a.geojson'' (1, [''/tmp/gisconv_batch_0/a.geojson'']) =
       ([''Loaded vector with 2 features. CRS=EPSG:4326.'', ''Applied make_valid.'',
         ''Read/Process failed: unsupported geometry type''],
        None, (2, [''/tmp/gisconv_batch_0/a.geojson'']))"
    by code_simp
  then show ?thesis
    by (simp add: OUTPUTS_def gdf_to_bytes_def lower_literals sample_env_def)
qed

lemma sample_mkdtemp:
  "lib_mkdtemp sample_env ''gisconv_out_'' (0, []) = (''/tmp/gisconv_out_0'', (1, []))"
  by code_simp

lemma sample_kml_relabel: "kml_relabel sample_env broken_frame = broken_frame\<lparr>crs := Some 4326\<rparr>"
  by (simp add: kml_relabel_def set_crs_def sample_env_def broken_frame_def)

lemma lower_latin1: "lower [CHR 0xC9, CHR ''P'', CHR ''S''] = [CHR 0xE9, CHR ''p'', CHR ''s'']"
  by code_simp

theorem export_unsupported_and_reraise_witness:
  "lower ''SHP'' \<notin> set OUTPUTS
   \<and> fst (gdf_to_bytes sample_env sample_options sample_frame ''SHP'' ''a'' (0, []))
       = Inl (ValueError ''Unsupported output format: shp'')
   \<and> fst (gdf_to_bytes sample_env sample_options sample_frame [CHR 0xC9, CHR ''P'', CHR ''S''] ''a'' (0, []))
       = Inl (ValueError (''Unsupported output format: '' @ [CHR 0xE9, CHR ''p'', CHR ''s'']))
   \<and> fst (gdf_to_bytes sample_env sample_options broken_frame ''kml'' ''a'' (0, []))
       = Inl (OtherError ''invalid geometry'')
   \<and> fst (gdf_to_bytes sample_env sample_options sample_frame ''gpx'' ''a'' (0, []))
       = Inl (OtherError ''unsupported geometry type'')"
proof -
  have u: "lower ''SHP'' \<notin> set OUTPUTS"
    by (simp add: lower_literals OUTPUTS_def)
  have l: "lower [CHR 0xC9, CHR ''P'', CHR ''S''] \<notin> set OUTPUTS"
    by (simp add: lower_latin1 OUTPUTS_def)
  have k: "lib_to_file sample_env (kml_relabel sample_env broken_frame)
             (joinpath ''/tmp/gisconv_out_0'' (''a'' @ ''.kml'')) ''KML'' (1, [])
           = (Inl (OtherError ''invalid geometry''), (1, []))"
    by (simp add: sample_kml_relabel) (simp add: sample_env_def broken_frame_def)
  have x: "lib_to_file sample_env sample_frame
             (joinpath ''/tmp/gisconv_out_0'' (''a'' @ ''.gpx'')) ''GPX'' (1, [])
           = (Inl (OtherError ''unsupported geometry type''), (1, []))"
    by (simp add: sample_env_def sample_frame_def)
  from export_unsupported_and_reraise
         [of "''SHP''" sample_env sample_options sample_frame "''a''" "(0, [])"] u
  have a: "fst (gdf_to_bytes sample_env sample_options sample_frame ''SHP'' ''a'' (0, []))
             = Inl (ValueError ''Unsupported output format: shp'')"
    by (simp add: lower_literals)
  from export_unsupported_and_reraise
         [of "[CHR 0xC9, CHR ''P'', CHR ''S'']" sample_env sample_options sample_frame "''a''" "(0, [])"] l
  have a': "fst (gdf_to_bytes sample_env sample_options sample_frame [CHR 0xC9, CHR ''P'', CHR ''S''] ''a'' (0, []))
       = Inl (ValueError (''Unsupported output format: '' @ [CHR 0xE9, CHR ''p'', CHR ''s'']))"
    by (simp add: lower_latin1)
  from export_unsupported_and_reraise
         [of "''kml''" sample_env sample_options broken_frame "''a''" "(0, [])"
             "''/tmp/gisconv_out_0''" "(1, [])" "OtherError ''invalid geometry''" "(1, [])"]
       k sample_mkdtemp
  have b: "fst (gdf_to_bytes sample_env sample_options broken_frame ''kml'' ''a'' (0, []))
       = Inl (OtherError ''invalid geometry'')"
    by (simp add: lower_literals)
  from export_unsupported_and_reraise
         [of "''gpx''" sample_env sample_options sample_frame "''a''" "(0, [])"
             "''/tmp/gisconv_out_0''" "(1, [])" "OtherError ''unsupported geometry type''" "(1, [])"]
       x sample_mkdtemp
  have c: "fst (gdf_to_bytes sample_env sample_options sample_frame ''gpx'' ''a'' (0, []))
       = Inl (OtherError ''unsupported geometry type'')"
    by (simp add: lower_literals)
  from u a a' b c show ?thesis by (intro conjI)
qed


lemma kml_relabel_frame:
  "features (kml_relabel env g) = features g \<and> columns (kml_relabel env g) = columns g"
  by (auto simp add: kml_relabel_def set_crs_def split: sum.splits option.splits)

lemma kml_relabel_applies:
  assumes "crs g = None \<or> (\<exists>c. crs g = Some c \<and> lib_to_epsg env c \<noteq> Some 4326)"
    and "lib_crs_from_epsg env 4326 = Inr wgs84"
  shows "kml_relabel env g = g\<lparr>crs := Some wgs84\<rparr>"
  using assms by (auto simp add: kml_relabel_def set_crs_def)

text \<open>
  Claim C5. Before the KML driver is called, a collection whose CRS is missing or whose
  EPSG code is not 4326 gets the CRS EPSG:4326 (\<open>wgs84\<close> is the CRS the library
  builds for the code 4326); the relabelled collection has the same features, so the
  same geometries, and the same columns. The KML export writes the relabelled
  collection, the GPX export writes the collection it was given.
\<close>

theorem kml_relabel_label_only:
  "((crs g = None \<or> (\<exists>c. crs g = Some c \<and> lib_to_epsg env c \<noteq> Some 4326))
      \<and> lib_crs_from_epsg env 4326 = Inr wgs84 \<longrightarrow>
    kml_relabel env g = g\<lparr>crs := Some wgs84\<rparr>)
   \<and> features (kml_relabel env g) = features g
   \<and> columns (kml_relabel env g) = columns g
   \<and> gdf_to_bytes env opts g ''kml'' base w =
       (case lib_mkdtemp env ''gisconv_out_'' w of
          (out_dir, w1) \<Rightarrow>
            write_noted env (kml_relabel env g) (joinpath out_dir (base @ ''.kml'')) ''KML'' [] w1)
   \<and> gdf_to_bytes env opts g ''gpx'' base w =
       (case lib_mkdtemp env ''gisconv_out_'' w of
          (out_dir, w1) \<Rightarrow> write_noted env g (joinpath out_dir (base @ ''.gpx'')) ''GPX'' [] w1)"
  using kml_relabel_applies [of g env wgs84] kml_relabel_frame [of env g]
    gdf_to_bytes_kml [of "''kml''" env opts g base w] gdf_to_bytes_gpx [of "''gpx''" env opts g base w]
  by (simp add: lower_literals)

theorem kml_relabel_label_only_witness:
  "kml_relabel sample_env broken_frame = broken_frame\<lparr>crs := Some 4326\<rparr>
   \<and> crs broken_frame = Some 3857
   \<and> kml_relabel sample_env (sample_frame\<lparr>crs := None\<rparr>) = sample_frame\<lparr>crs := Some 4326\<rparr>"
proof -
  have w: "lib_crs_from_epsg sample_env 4326 = Inr 4326"
    by (simp add: sample_env_def)
  have a: "crs broken_frame = Some 3857 \<and> lib_to_epsg sample_env 3857 \<noteq> Some 4326"
    by (simp add: broken_frame_def sample_env_def)
  have b: "crs (sample_frame\<lparr>crs := None\<rparr>) = None"
    by simp
  from kml_relabel_label_only [of broken_frame sample_env 4326 sample_options "''a''" "(0, [])"] w a
  have "kml_relabel sample_env broken_frame = broken_frame\<lparr>crs := Some 4326\<rparr>"
    by blast
  moreover
  from kml_relabel_label_only
         [of "sample_frame\<lparr>crs := None\<rparr>" sample_env 4326 sample_options "''a''" "(0, [])"] w b
  have "kml_relabel sample_env (sample_frame\<lparr>crs := None\<rparr>) = sample_frame\<lparr>crs := Some 4326\<rparr>"
    by simp
  ultimately show ?thesis using a by simp
qed

subsection \<open>Reprojection\<close>

text \<open>
  Claim C2. \<open>reproject\<close> always returns a collection and an optional note, following
  the decision table: a target that \<open>int\<close> rejects gives the collection back with the
  invalid-target note; an unknown CRS gives it back with the cannot-reproject note; a
  CRS whose EPSG code is the target gives it back without a note; when \<open>to_crs\<close>
  raises, the collection is given back with the failure note; otherwise the result is
  the transformed collection, which carries the CRS built from the target code and the
  transformed geometries, with the success note.
\<close>

theorem reproject_decision_table:
  "(py_int epsg = None \<longrightarrow>
      reproject env g epsg = (g, Some ''Invalid target EPSG; kept original CRS.''))
   \<and> (py_int epsg = Some tgt \<and> crs g = None \<longrightarrow>
      reproject env g epsg = (g, Some ''Source CRS unknown; cannot reproject.''))
   \<and> (py_int epsg = Some tgt \<and> crs g = Some src \<and> lib_to_epsg env src = Some tgt \<longrightarrow>
      reproject env g epsg = (g, None))
   \<and> (py_int epsg = Some tgt \<and> crs g = Some src \<and> lib_to_epsg env src \<noteq> Some tgt
        \<and> to_crs env g src tgt = Inl e \<longrightarrow>
      reproject env g epsg = (g, Some (''Reprojection failed: '' @ str_exn e)))
   \<and> (py_int epsg = Some tgt \<and> crs g = Some src \<and> lib_to_epsg env src \<noteq> Some tgt
        \<and> to_crs env g src tgt = Inr g' \<longrightarrow>
      reproject env g epsg = (g', Some (''Reprojected to EPSG:'' @ str_int tgt @ ''.''))
      \<and> (\<exists>dst. lib_crs_from_epsg env tgt = Inr dst \<and> crs g' = Some dst
             \<and> mapM (lib_transform env src dst) (map snd (features g)) = Inr (map snd (features g'))))"
  using to_crs_result [of env g src tgt g'] by (simp add: reproject_def)

lemma py_int_samples:
  "py_int ''abc'' = None" "py_int ''4326'' = Some 4326" "py_int ''3857'' = Some 3857"
  "py_int (CHR 0x1F # ''4326'') = None" "py_int (CHR 0xA0 # ''4326 '') = Some 4326"
  by code_simp+

lemma py_int_too_long:
  assumes "length (filter is_digit s) > max_str_digits"
  shows "py_int s = None"
proof -
  let ?t = "strip s"
  let ?body = "if ?t \<noteq> [] \<and> (hd ?t = CHR ''-'' \<or> hd ?t = CHR ''+'') then tl ?t else ?t"
  have d: "\<not> is_digit c" if "c = CHR ''-'' \<or> c = CHR ''+'' \<or> c = CHR ''_'' \<or> is_space c" for c
    using that by (auto simp add: is_digit_def is_space_def Let_def)
  have sd: "\<not> is_digit c" if "is_space c" for c
    using that by (rule d [OF disjI2, OF disjI2, OF disjI2])
  have drop: "filter is_digit (dropWhile is_space xs) = filter is_digit xs" for xs
    by (induction xs) (simp_all add: sd)
  have "filter is_digit ?t = filter is_digit s"
    unfolding strip_def
    by (metis (no_types) drop rev_filter rev_rev_ident)
  moreover have "filter is_digit ?body = filter is_digit ?t"
    by (cases ?t) (auto simp add: d)
  ultimately have "filter is_digit ?body = filter is_digit s"
    by simp
  moreover have "length (filter is_digit ?body) \<le> length (filter (\<lambda>c. c \<noteq> CHR ''_'') ?body)"
  proof -
    have und: "filter is_digit (filter (\<lambda>c. c \<noteq> CHR ''_'') xs) = filter is_digit xs" for xs
      by (induction xs) (simp_all add: d)
    have "length (filter is_digit (filter (\<lambda>c. c \<noteq> CHR ''_'') ?body))
            \<le> length (filter (\<lambda>c. c \<noteq> CHR ''_'') ?body)"
      by (rule length_filter_le)
    then show ?thesis
      by (simp only: und)
  qed
  ultimately have "\<not> length (filter (\<lambda>c. c \<noteq> CHR ''_'') ?body) \<le> max_str_digits"
    using assms by simp
  then show ?thesis
    by (simp add: py_int_def Let_def)
qed

lemma str_int_samples: "str_int 3857 = ''3857''"
  by code_simp

lemma sample_to_crs_ok:
  "to_crs sample_env sample_frame 4326 3857 =
     Inr \<lparr>columns = [''name'', ''population_2020'', ''population_2021''],
          features = [([Str ''A'', Num 10, Num 20], SPoint (Num 12.9) (Num 77.6)),
                      ([Str ''B'', Num 30, Num 40], SPolygon)],
          crs = Some 3857\<rparr>"
  by (simp add: to_crs_def apply_geometry_def sample_env_def sample_frame_def)

lemma sample_to_crs_fails:
  "to_crs sample_env broken_frame 3857 4326 = Inl (OtherError ''invalid geometry'')"
  by (simp add: to_crs_def apply_geometry_def sample_env_def broken_frame_def)

theorem reproject_decision_table_witness:
  "reproject sample_env sample_frame ''abc'' =
     (sample_frame, Some ''Invalid target EPSG; kept original CRS.'')
   \<and> reproject sample_env sample_frame (CHR 0x1F # ''4326'') =
     (sample_frame, Some ''Invalid target EPSG; kept original CRS.'')
   \<and> reproject sample_env sample_frame (replicate 4301 (CHR ''9'')) =
     (sample_frame, Some ''Invalid target EPSG; kept original CRS.'')
   \<and> reproject sample_env (sample_frame\<lparr>crs := None\<rparr>) ''4326'' =
     (sample_frame\<lparr>crs := None\<rparr>, Some ''Source CRS unknown; cannot reproject.'')
   \<and> reproject sample_env sample_frame ''4326'' = (sample_frame, None)
   \<and> reproject sample_env broken_frame ''4326'' =
     (broken_frame, Some ''Reprojection failed: invalid geometry'')
   \<and> reproject sample_env sample_frame ''3857'' =
     (\<lparr>columns = [''name'', ''population_2020'', ''population_2021''],
       features = [([Str ''A'', Num 10, Num 20], SPoint (Num 12.9) (Num 77.6)),
                   ([Str ''B'', Num 30, Num 40], SPolygon)],
       crs = Some 3857\<rparr>, Some ''Reprojected to EPSG:3857.'')"
proof -
  have c1: "crs sample_frame = Some 4326" "lib_to_epsg sample_env 4326 = Some 4326"
    "lib_to_epsg sample_env 4326 \<noteq> Some 3857"
    by (simp_all add: sample_frame_def sample_env_def)
  have c2: "crs broken_frame = Some 3857" "lib_to_epsg sample_env 3857 \<noteq> Some 4326"
    by (simp_all add: broken_frame_def sample_env_def)
  from reproject_decision_table [of "''abc''" sample_env sample_frame]
  have a: "reproject sample_env sample_frame ''abc'' =
             (sample_frame, Some ''Invalid target EPSG; kept original CRS.'')"
    by (simp add: py_int_samples)
  from reproject_decision_table [of "CHR 0x1F # ''4326''" sample_env sample_frame]
  have a1: "reproject sample_env sample_frame (CHR 0x1F # ''4326'') =
             (sample_frame, Some ''Invalid target EPSG; kept original CRS.'')"
    by (simp add: py_int_samples)
  have "py_int (replicate 4301 (CHR ''9'')) = None"
    by (rule py_int_too_long) (simp add: max_str_digits_def is_digit_def)
  with reproject_decision_table [of "replicate 4301 (CHR ''9'')" sample_env sample_frame]
  have a2: "reproject sample_env sample_frame (replicate 4301 (CHR ''9'')) =
             (sample_frame, Some ''Invalid target EPSG; kept original CRS.'')"
    by simp
  from reproject_decision_table [of "''4326''" sample_env "sample_frame\<lparr>crs := None\<rparr>" 4326]
  have b: "reproject sample_env (sample_frame\<lparr>crs := None\<rparr>) ''4326'' =
             (sample_frame\<lparr>crs := None\<rparr>, Some ''Source CRS unknown; cannot reproject.'')"
    by (simp add: py_int_samples)
  from reproject_decision_table [of "''4326''" sample_env sample_frame 4326 4326] c1
  have c: "reproject sample_env sample_frame ''4326'' = (sample_frame, None)"
    by (simp add: py_int_samples)
  from reproject_decision_table
         [of "''4326''" sample_env broken_frame 4326 3857 "OtherError ''invalid geometry''"]
       c2 sample_to_crs_fails
  have d: "reproject sample_env broken_frame ''4326'' =
             (broken_frame, Some ''Reprojection failed: invalid geometry'')"
    by (simp add: py_int_samples)
  from reproject_decision_table
         [of "''3857''" sample_env sample_frame 3857 4326 _
             "\<lparr>columns = [''name'', ''population_2020'', ''population_2021''],
               features = [([Str ''A'', Num 10, Num 20], SPoint (Num 12.9) (Num 77.6)),
                           ([Str ''B'', Num 30, Num 40], SPolygon)],
               crs = Some 3857\<rparr>"]
       c1 sample_to_crs_ok
  have e: "reproject sample_env sample_frame ''3857'' =
     (\<lparr>columns = [''name'', ''population_2020'', ''population_2021''],
       features = [([Str ''A'', Num 10, Num 20], SPoint (Num 12.9) (Num 77.6)),
                   ([Str ''B'', Num 30, Num 40], SPolygon)],
       crs = Some 3857\<rparr>, Some ''Reprojected to EPSG:3857.'')"
    by (simp add: py_int_samples str_int_samples)
  from a a1 a2 b c d e show ?thesis by (intro conjI)
qed


subsection \<open>Geometry conditioning\<close>

lemma make_valid_stage_spec:
  "make_valid_stage env opts (g, ns) =
     (fst (stage_spec (do_make_valid opts \<and> lib_make_valid env \<noteq> None)
             (\<lambda>h. case lib_make_valid env of None \<Rightarrow> Inr h | Some mv \<Rightarrow> apply_geometry mv h)
             ''Applied make_valid.'' ''make_valid failed: '' g),
      ns @ snd (stage_spec (do_make_valid opts \<and> lib_make_valid env \<noteq> None)
             (\<lambda>h. case lib_make_valid env of None \<Rightarrow> Inr h | Some mv \<Rightarrow> apply_geometry mv h)
             ''Applied make_valid.'' ''make_valid failed: '' g))"
  by (simp add: make_valid_stage_def stage_spec_def split: option.splits sum.splits)

lemma buffer_stage_spec:
  "buffer_stage env opts (g, ns) =
     (fst (stage_spec (use_buffer_fix opts) (apply_geometry (lib_buffer env 0))
             ''Applied buffer(0) fix.'' ''buffer(0) failed: '' g),
      ns @ snd (stage_spec (use_buffer_fix opts) (apply_geometry (lib_buffer env 0))
             ''Applied buffer(0) fix.'' ''buffer(0) failed: '' g))"
  by (simp add: buffer_stage_def stage_spec_def split: sum.splits)

lemma simplify_stage_spec:
  "simplify_stage env opts (g, ns) =
     (fst (stage_spec (do_simplify opts \<and> simplify_tol opts > 0)
             (apply_geometry (lib_simplify env (simplify_tol opts)))
             (''Simplified (tol='' @ lib_str_float env (simplify_tol opts) @ '').'')
             ''Simplify failed: '' g),
      ns @ snd (stage_spec (do_simplify opts \<and> simplify_tol opts > 0)
             (apply_geometry (lib_simplify env (simplify_tol opts)))
             (''Simplified (tol='' @ lib_str_float env (simplify_tol opts) @ '').'')
             ''Simplify failed: '' g))"
  by (simp add: simplify_stage_def stage_spec_def split: sum.splits)

lemma stage_spec_length:
  "length (snd (stage_spec enabled run applied failed g)) = (if enabled then 1 else 0)"
  by (simp add: stage_spec_def split: sum.splits)

text \<open>
  Claim C3, as amended. Geometry conditioning always returns. It is the three stages in
  the order validity repair, \<open>buffer(0)\<close>, simplification, each on the collection the
  stage before it left, where validity repair is enabled when its option is on and the
  library provides \<open>make_valid\<close>, \<open>buffer(0)\<close> when its option is on, and
  simplification when its option is on and the tolerance is positive. An enabled stage
  that raises leaves the collection as it was and adds the failure note; one that
  returns adds its note of success; so the notes are, in stage order, exactly one note
  for each enabled stage.
\<close>

theorem conditioning_stages:
  "(let s1 = stage_spec (do_make_valid opts \<and> lib_make_valid env \<noteq> None)
               (\<lambda>h. case lib_make_valid env of None \<Rightarrow> Inr h | Some mv \<Rightarrow> apply_geometry mv h)
               ''Applied make_valid.'' ''make_valid failed: '' g;
        s2 = stage_spec (use_buffer_fix opts) (apply_geometry (lib_buffer env 0))
               ''Applied buffer(0) fix.'' ''buffer(0) failed: '' (fst s1);
        s3 = stage_spec (do_simplify opts \<and> simplify_tol opts > 0)
               (apply_geometry (lib_simplify env (simplify_tol opts)))
               (''Simplified (tol='' @ lib_str_float env (simplify_tol opts) @ '').'')
               ''Simplify failed: '' (fst s2)
    in apply_repairs_and_ops env opts g = (fst s3, snd s1 @ snd s2 @ snd s3))
   \<and> length (snd (apply_repairs_and_ops env opts g)) =
       (if do_make_valid opts \<and> lib_make_valid env \<noteq> None then 1 else 0)
       + (if use_buffer_fix opts then 1 else 0)
       + (if do_simplify opts \<and> simplify_tol opts > 0 then 1 else 0)"
proof -
  let ?s1 = "stage_spec (do_make_valid opts \<and> lib_make_valid env \<noteq> None)
               (\<lambda>h. case lib_make_valid env of None \<Rightarrow> Inr h | Some mv \<Rightarrow> apply_geometry mv h)
               ''Applied make_valid.'' ''make_valid failed: '' g"
  let ?s2 = "stage_spec (use_buffer_fix opts) (apply_geometry (lib_buffer env 0))
               ''Applied buffer(0) fix.'' ''buffer(0) failed: '' (fst ?s1)"
  let ?s3 = "stage_spec (do_simplify opts \<and> simplify_tol opts > 0)
               (apply_geometry (lib_simplify env (simplify_tol opts)))
               (''Simplified (tol='' @ lib_str_float env (simplify_tol opts) @ '').'')
               ''Simplify failed: '' (fst ?s2)"
  have eq: "apply_repairs_and_ops env opts g = (fst ?s3, snd ?s1 @ snd ?s2 @ snd ?s3)"
    unfolding apply_repairs_and_ops_def
    by (simp only: make_valid_stage_spec buffer_stage_spec simplify_stage_spec append_Nil append_assoc)
  have "length (snd (apply_repairs_and_ops env opts g)) =
          length (snd ?s1) + length (snd ?s2) + length (snd ?s3)"
    unfolding eq by simp
  then have "length (snd (apply_repairs_and_ops env opts g)) =
       (if do_make_valid opts \<and> lib_make_valid env \<noteq> None then 1 else 0)
       + (if use_buffer_fix opts then 1 else 0)
       + (if do_simplify opts \<and> simplify_tol opts > 0 then 1 else 0)"
    by (simp only: stage_spec_length)
  with eq show ?thesis
    unfolding Let_def by (rule conjI)
qed

text \<open>
  The claim as stated fails when the validity repair option is on (its default) and
  \<open>make_valid\<close> could not be imported: the stage is skipped without any note.
\<close>

theorem conditioning_make_valid_counterexample:
  "do_make_valid sample_options
   \<and> snd (apply_repairs_and_ops (sample_env\<lparr>lib_make_valid := None\<rparr>) sample_options sample_frame) = []"
  by (simp add: apply_repairs_and_ops_def make_valid_stage_def buffer_stage_def
      simplify_stage_def sample_options_def)

lemma sample_apply_geometry:
  "apply_geometry sample_op broken_frame = Inl (OtherError ''invalid geometry'')"
  "apply_geometry sample_op sample_frame = Inr sample_frame"
  by (simp_all add: apply_geometry_def sample_op_def broken_frame_def sample_frame_def)

theorem conditioning_stages_witness:
  "apply_repairs_and_ops sample_env
     thorough_options broken_frame =
     (broken_frame, [''make_valid failed: invalid geometry'', ''buffer(0) failed: invalid geometry'',
                     ''Simplify failed: invalid geometry''])
   \<and> apply_repairs_and_ops sample_env
     thorough_options sample_frame =
     (sample_frame, [''Applied make_valid.'', ''Applied buffer(0) fix.'', ''Simplified (tol=2.0).''])
   \<and> apply_repairs_and_ops sample_env sample_options sample_frame =
     (sample_frame, [''Applied make_valid.''])"
proof -
  have env: "lib_make_valid sample_env = Some sample_op" "lib_buffer sample_env 0 = sample_op"
    "lib_simplify sample_env 2 = sample_op" "lib_str_float sample_env 2 = ''2.0''"
    by (simp_all add: sample_env_def)
  have all: "do_make_valid thorough_options" "use_buffer_fix thorough_options"
    "do_simplify thorough_options" "simplify_tol thorough_options = 2"
    by (simp_all add: thorough_options_def)
  have opts: "do_make_valid sample_options" "\<not> use_buffer_fix sample_options"
    "\<not> do_simplify sample_options"
    by (simp_all add: sample_options_def)
  from conditioning_stages
         [of thorough_options
             sample_env broken_frame]
  have a: "apply_repairs_and_ops sample_env
     thorough_options broken_frame =
     (broken_frame, [''make_valid failed: invalid geometry'', ''buffer(0) failed: invalid geometry'',
                     ''Simplify failed: invalid geometry''])"
    by (simp add: Let_def stage_spec_def all env sample_apply_geometry)
  from conditioning_stages
         [of thorough_options
             sample_env sample_frame]
  have b: "apply_repairs_and_ops sample_env
     thorough_options sample_frame =
     (sample_frame, [''Applied make_valid.'', ''Applied buffer(0) fix.'', ''Simplified (tol=2.0).''])"
    by (simp add: Let_def stage_spec_def all env sample_apply_geometry)
  from conditioning_stages [of sample_options sample_env sample_frame]
  have c: "apply_repairs_and_ops sample_env sample_options sample_frame =
     (sample_frame, [''Applied make_valid.''])"
    by (simp add: Let_def stage_spec_def opts env sample_apply_geometry)
  from a b c show ?thesis by blast
qed

subsection \<open>Ingestion\<close>

lemma to_numeric_idem: "to_numeric env (to_numeric env v) = to_numeric env v"
  by (simp add: to_numeric_def split: cell.splits option.splits)

lemma to_numeric_NaN: "to_numeric env NaN = NaN"
  by (simp add: to_numeric_def)

lemma to_numeric_not_NaN: "(to_numeric env v \<noteq> NaN) = is_number (to_numeric env v)"
  by (simp add: to_numeric_def is_number_def split: cell.splits option.splits)

lemma to_numeric_keeps_NaN: "to_numeric env v \<noteq> NaN \<Longrightarrow> v \<noteq> NaN"
  by (auto simp add: to_numeric_def)

lemma cell_at_coerce_row:
  "cell_at (coerce_row env cols c r) k =
     (if k = col_index cols c then to_numeric env (cell_at r k) else cell_at r k)"
  by (simp add: coerce_row_def cell_at_def Let_def to_numeric_NaN)

lemma cell_at_coerce_both:
  "cell_at (coerce_row env cols b (coerce_row env cols a r)) (col_index cols a)
     = to_numeric env (cell_at r (col_index cols a))"
  "cell_at (coerce_row env cols b (coerce_row env cols a r)) (col_index cols b)
     = to_numeric env (cell_at r (col_index cols b))"
  by (simp_all add: cell_at_coerce_row to_numeric_idem)

lemma dropna_rows:
  "df_rows (dropna [a, b] df) =
     filter (\<lambda>r. get_cell df a r \<noteq> NaN \<and> get_cell df b r \<noteq> NaN) (df_rows df)"
  by (simp add: dropna_def)

lemma frame_columns:
  "df_columns (dropna cs df) = df_columns df"
  "df_columns (coerce_column env c df) = df_columns df"
  by (simp_all add: dropna_def coerce_column_def)

lemma get_cell_cong: "df_columns df = df_columns df' \<Longrightarrow> get_cell df c r = get_cell df' c r"
  by (simp add: get_cell_def)

lemma cleaned_rows:
  "df_rows (dropna [lat_col, lon_col]
              (coerce_column env lon_col
                 (coerce_column env lat_col (dropna [lat_col, lon_col] df0)))) =
     map (\<lambda>r. coerce_row env (df_columns df0) lon_col (coerce_row env (df_columns df0) lat_col r))
         (kept_rows env df0 lat_col lon_col)"
proof -
  let ?cols = "df_columns df0"
  let ?df3 = "coerce_column env lon_col (coerce_column env lat_col (dropna [lat_col, lon_col] df0))"
  let ?co = "\<lambda>r. coerce_row env ?cols lon_col (coerce_row env ?cols lat_col r)"
  let ?p0 = "\<lambda>r. get_cell df0 lat_col r \<noteq> NaN \<and> get_cell df0 lon_col r \<noteq> NaN"
  let ?keep = "\<lambda>r. is_number (to_numeric env (get_cell df0 lat_col r))
                    \<and> is_number (to_numeric env (get_cell df0 lon_col r))"
  have rows3: "df_rows ?df3 = map ?co (filter ?p0 (df_rows df0))"
    by (simp add: coerce_column_def dropna_def)
  have cell: "get_cell ?df3 x (?co r) = to_numeric env (get_cell df0 x r)"
    if "x = lat_col \<or> x = lon_col" for x r
    using that by (auto simp add: get_cell_def frame_columns cell_at_coerce_both)
  have "df_rows (dropna [lat_col, lon_col] ?df3) =
          filter (\<lambda>r'. get_cell ?df3 lat_col r' \<noteq> NaN \<and> get_cell ?df3 lon_col r' \<noteq> NaN)
                 (map ?co (filter ?p0 (df_rows df0)))"
    unfolding dropna_rows rows3 ..
  also have "\<dots> = map ?co (filter (\<lambda>r. ?keep r \<and> ?p0 r) (df_rows df0))"
    by (simp add: filter_map o_def cell to_numeric_not_NaN conj_commute)
  also have "(\<lambda>r. ?keep r \<and> ?p0 r) = ?keep"
    using to_numeric_keeps_NaN [of env] by (auto simp add: to_numeric_not_NaN [symmetric])
  finally show ?thesis
    by (simp add: kept_rows_def)
qed

lemma read_csv_points_ok:
  assumes "read_table env path w = Inr df0"
    and "lat_col \<in> set (df_columns df0)" and "lon_col \<in> set (df_columns df0)"
    and "lib_crs_from_string env (''EPSG:'' @ src_epsg) = Inr c"
  shows "read_csv_points env path lat_col lon_col src_epsg w =
           Inr \<lparr>columns = df_columns df0,
                features =
                  map (\<lambda>r. (coerce_row env (df_columns df0) lon_col
                               (coerce_row env (df_columns df0) lat_col r),
                             lib_point env (to_numeric env (get_cell df0 lon_col r))
                                           (to_numeric env (get_cell df0 lat_col r))))
                      (kept_rows env df0 lat_col lon_col),
                crs = Some c\<rparr>"
proof -
  let ?df = "dropna [lat_col, lon_col]
               (coerce_column env lon_col
                  (coerce_column env lat_col (dropna [lat_col, lon_col] df0)))"
  have cell: "get_cell ?df x (coerce_row env (df_columns df0) lon_col (coerce_row env (df_columns df0) lat_col r))
                = to_numeric env (get_cell df0 x r)" if "x = lat_col \<or> x = lon_col" for x r
    using that by (auto simp add: get_cell_def frame_columns cell_at_coerce_both)
  show ?thesis
    using assms
    by (simp add: read_csv_points_def Let_def cleaned_rows frame_columns o_def cell)
qed

lemma sample_table_kept:
  "kept_rows env sample_table ''lat'' ''lon'' =
     [[Num 12.9, Num 77.6, Str ''A''], [Num 13.0, Num 77.7, Str ''C'']]"
  by (simp add: kept_rows_def get_cell_def col_index_def cell_at_def to_numeric_def
      is_number_def sample_table_def)

lemma sample_table_cells:
  "df_columns sample_table = [''lat'', ''lon'', ''name'']"
  "get_cell sample_table ''lat'' [Num a, Num b, Str n] = Num a"
  "get_cell sample_table ''lon'' [Num a, Num b, Str n] = Num b"
  "coerce_row env [''lat'', ''lon'', ''name''] ''lon''
     (coerce_row env [''lat'', ''lon'', ''name''] ''lat'' [Num a, Num b, Str n]) = [Num a, Num b, Str n]"
  by (simp_all add: get_cell_def col_index_def cell_at_def coerce_row_def to_numeric_def
      sample_table_def)

text \<open>
  Claim C7. When the table is read, both chosen columns exist and the source EPSG
  names a CRS, \<open>read_csv_points\<close> returns a collection (no error) whose features are, in
  order, one point for each row whose latitude and longitude both hold a number after
  coercion, built from the coerced longitude and latitude in that order, with the CRS
  of the supplied EPSG; every other row is absent. For the table with the columns lat,
  lon, name and the rows (12.9, 77.6, A), (NaN, 77.6, B), (13.0, 77.7, C) and EPSG
  4326, the result has exactly the two point features of A and C.
\<close>

theorem tabular_points:
  "(read_table env path w = Inr df \<and> lat_col \<in> set (df_columns df)
      \<and> lon_col \<in> set (df_columns df)
      \<and> lib_crs_from_string env (''EPSG:'' @ src_epsg) = Inr c \<longrightarrow>
    read_csv_points env path lat_col lon_col src_epsg w =
      Inr \<lparr>columns = df_columns df,
           features =
             map (\<lambda>r. (coerce_row env (df_columns df) lon_col
                          (coerce_row env (df_columns df) lat_col r),
                        lib_point env (to_numeric env (get_cell df lon_col r))
                                      (to_numeric env (get_cell df lat_col r))))
                 (kept_rows env df lat_col lon_col),
           crs = Some c\<rparr>)
   \<and> (read_table env' path' w' = Inr sample_table
        \<and> lib_crs_from_string env' ''EPSG:4326'' = Inr c' \<longrightarrow>
      read_csv_points env' path' ''lat'' ''lon'' ''4326'' w' =
        Inr \<lparr>columns = [''lat'', ''lon'', ''name''],
             features = [([Num 12.9, Num 77.6, Str ''A''], lib_point env' (Num 77.6) (Num 12.9)),
                         ([Num 13.0, Num 77.7, Str ''C''], lib_point env' (Num 77.7) (Num 13.0))],
             crs = Some c'\<rparr>)"
proof -
  have "read_csv_points env' path' ''lat'' ''lon'' ''4326'' w' =
        Inr \<lparr>columns = [''lat'', ''lon'', ''name''],
             features = [([Num 12.9, Num 77.6, Str ''A''], lib_point env' (Num 77.6) (Num 12.9)),
                         ([Num 13.0, Num 77.7, Str ''C''], lib_point env' (Num 77.7) (Num 13.0))],
             crs = Some c'\<rparr>"
    if t: "read_table env' path' w' = Inr sample_table"
      and c: "lib_crs_from_string env' ''EPSG:4326'' = Inr c'"
  proof -
    have cols: "''lat'' \<in> set (df_columns sample_table)" "''lon'' \<in> set (df_columns sample_table)"
      by (simp_all add: sample_table_cells)
    from c have c4: "lib_crs_from_string env' (''EPSG:'' @ ''4326'') = Inr c'"
      by simp
    show ?thesis
      unfolding read_csv_points_ok [OF t cols c4]
      by (simp add: sample_table_kept sample_table_cells to_numeric_def)
  qed
  then show ?thesis
    using read_csv_points_ok [of env path w df lat_col lon_col src_epsg c] by blast
qed

lemma sample_read_table: "read_table sample_env ''points.csv'' (0, []) = Inr sample_table"
proof -
  have "lower (path_suffix ''points.csv'') = ''.csv''"
    by code_simp
  then show ?thesis
    by (simp add: read_table_def sample_env_def)
qed

theorem tabular_points_witness:
  "read_csv_points sample_env ''points.csv'' ''lat'' ''lon'' ''4326'' (0, []) =
     Inr \<lparr>columns = [''lat'', ''lon'', ''name''],
          features = [([Num 12.9, Num 77.6, Str ''A''], SPoint (Num 77.6) (Num 12.9)),
                      ([Num 13.0, Num 77.7, Str ''C''], SPoint (Num 77.7) (Num 13.0))],
          crs = Some 4326\<rparr>
   \<and> kept_rows sample_env sample_table ''lat'' ''lon'' =
       [[Num 12.9, Num 77.6, Str ''A''], [Num 13.0, Num 77.7, Str ''C'']]"
proof -
  have c: "lib_crs_from_string sample_env (''EPSG:'' @ ''4326'') = Inr 4326"
    by (simp add: sample_env_def)
  have cols: "''lat'' \<in> set (df_columns sample_table)" "''lon'' \<in> set (df_columns sample_table)"
    by (simp_all add: sample_table_cells)
  have p: "lib_point sample_env = SPoint"
    by (simp add: sample_env_def)
  from tabular_points [of sample_env "''points.csv''" "(0, [])" sample_table "''lat''" "''lon''"
                          "''4326''" 4326, THEN conjunct1]
       sample_read_table c cols
  have "read_csv_points sample_env ''points.csv'' ''lat'' ''lon'' ''4326'' (0, []) =
      Inr \<lparr>columns = df_columns sample_table,
           features =
             map (\<lambda>r. (coerce_row sample_env (df_columns sample_table) ''lon''
                          (coerce_row sample_env (df_columns sample_table) ''lat'' r),
                        lib_point sample_env (to_numeric sample_env (get_cell sample_table ''lon'' r))
                                      (to_numeric sample_env (get_cell sample_table ''lat'' r))))
                 (kept_rows sample_env sample_table ''lat'' ''lon''),
           crs = Some 4326\<rparr>"
    by blast
  then show ?thesis
    by (simp add: sample_table_kept sample_table_cells to_numeric_def p)
qed

text \<open>
  Claim C8. For a path with the extension \<open>.zip\<close> whose archive is extracted without
  an exception into the scratch directory \<open>unzipped\<close> beside it: when the recursive
  search of that directory for \<open>*.shp\<close> finds nothing, ingestion fails with
  \<open>ValueError("No .shp found inside the uploaded .zip")\<close>, the specification's
  \<open>MissingPayload\<close>, and returns no collection; otherwise it is the result of reading
  the first file found.
\<close>

theorem zip_ingestion:
  assumes "lower (path_suffix path) = ''.zip''"
    and "lib_extractall env path (joinpath (path_parent path) ''unzipped'') w = (Inr u, w')"
  shows "(lib_rglob env (joinpath (path_parent path) ''unzipped'') ''*.shp'' w' = [] \<longrightarrow>
            read_vector_any env path w =
              (Inl (ValueError ''No .shp found inside the uploaded .zip''), w'))
         \<and> (\<forall>f fs. lib_rglob env (joinpath (path_parent path) ''unzipped'') ''*.shp'' w' = f # fs \<longrightarrow>
               read_vector_any env path w = (lib_read_file env f w', w'))"
  using assms by (auto simp add: read_vector_any_def unzip_if_shapefile_def)

lemma sample_zip_paths:
  "lower (path_suffix ''/tmp/gisconv_batch_0/empty.zip'') = ''.zip''"
  "lower (path_suffix ''/tmp/gisconv_batch_0/roads.zip'') = ''.zip''"
  "joinpath (path_parent ''/tmp/gisconv_batch_0/empty.zip'') ''unzipped'' = ''/tmp/gisconv_batch_0/unzipped''"
  "joinpath (path_parent ''/tmp/gisconv_batch_0/roads.zip'') ''unzipped'' = ''/tmp/gisconv_batch_0/unzipped''"
  by code_simp+

lemma sample_extract:
  "lib_extractall sample_env ''/tmp/gisconv_batch_0/empty.zip'' ''/tmp/gisconv_batch_0/unzipped''
     (1, [''/tmp/gisconv_batch_0/empty.zip'']) =
     (Inr (), (1, [''/tmp/gisconv_batch_0/empty.zip'', ''/tmp/gisconv_batch_0/unzipped/readme.txt'']))"
  "lib_extractall sample_env ''/tmp/gisconv_batch_0/roads.zip'' ''/tmp/gisconv_batch_0/unzipped''
     (1, [''/tmp/gisconv_batch_0/roads.zip'']) =
     (Inr (), (1, [''/tmp/gisconv_batch_0/roads.zip'', ''/tmp/gisconv_batch_0/unzipped/roads.dbf'',
                   ''/tmp/gisconv_batch_0/unzipped/roads.shp'']))"
  "lib_rglob sample_env ''/tmp/gisconv_batch_0/unzipped'' ''*.shp''
     (1, [''/tmp/gisconv_batch_0/empty.zip'', ''/tmp/gisconv_batch_0/unzipped/readme.txt'']) = []"
  "lib_rglob sample_env ''/tmp/gisconv_batch_0/unzipped'' ''*.shp''
     (1, [''/tmp/gisconv_batch_0/roads.zip'', ''/tmp/gisconv_batch_0/unzipped/roads.dbf'',
          ''/tmp/gisconv_batch_0/unzipped/roads.shp'']) = [''/tmp/gisconv_batch_0/unzipped/roads.shp'']"
  "lib_read_file sample_env ''/tmp/gisconv_batch_0/unzipped/roads.shp''
     (1, [''/tmp/gisconv_batch_0/roads.zip'', ''/tmp/gisconv_batch_0/unzipped/roads.dbf'',
          ''/tmp/gisconv_batch_0/unzipped/roads.shp'']) = Inr sample_frame"
  by code_simp+

theorem zip_ingestion_witness:
  "read_vector_any sample_env ''/tmp/gisconv_batch_0/empty.zip'' (1, [''/tmp/gisconv_batch_0/empty.zip'']) =
     (Inl (ValueError ''No .shp found inside the uploaded .zip''),
      (1, [''/tmp/gisconv_batch_0/empty.zip'', ''/tmp/gisconv_batch_0/unzipped/readme.txt'']))
   \<and> read_vector_any sample_env ''/tmp/gisconv_batch_0/roads.zip'' (1, [''/tmp/gisconv_batch_0/roads.zip'']) =
     (Inr sample_frame,
      (1, [''/tmp/gisconv_batch_0/roads.zip'', ''/tmp/gisconv_batch_0/unzipped/roads.dbf'',
           ''/tmp/gisconv_batch_0/unzipped/roads.shp'']))"
proof -
  note a = zip_ingestion [of "''/tmp/gisconv_batch_0/empty.zip''" sample_env
             "(1, [''/tmp/gisconv_batch_0/empty.zip''])" "()"
             "(1, [''/tmp/gisconv_batch_0/empty.zip'', ''/tmp/gisconv_batch_0/unzipped/readme.txt''])"]
  note b = zip_ingestion [of "''/tmp/gisconv_batch_0/roads.zip''" sample_env
             "(1, [''/tmp/gisconv_batch_0/roads.zip''])" "()"
             "(1, [''/tmp/gisconv_batch_0/roads.zip'', ''/tmp/gisconv_batch_0/unzipped/roads.dbf'',
                   ''/tmp/gisconv_batch_0/unzipped/roads.shp''])"]
  from a have "read_vector_any sample_env ''/tmp/gisconv_batch_0/empty.zip'' (1, [''/tmp/gisconv_batch_0/empty.zip'']) =
     (Inl (ValueError ''No .shp found inside the uploaded .zip''),
      (1, [''/tmp/gisconv_batch_0/empty.zip'', ''/tmp/gisconv_batch_0/unzipped/readme.txt'']))"
    by (simp only: sample_zip_paths sample_extract simp_thms)
  moreover from b have "read_vector_any sample_env ''/tmp/gisconv_batch_0/roads.zip'' (1, [''/tmp/gisconv_batch_0/roads.zip'']) =
     (Inr sample_frame,
      (1, [''/tmp/gisconv_batch_0/roads.zip'', ''/tmp/gisconv_batch_0/unzipped/roads.dbf'',
           ''/tmp/gisconv_batch_0/unzipped/roads.shp'']))"
    by (simp only: sample_zip_paths sample_extract simp_thms list.inject)
  ultimately show ?thesis by (rule conjI)
qed

section \<open>Batch conversion\<close>

subsection \<open>Names of archive entries\<close>
















subsection \<open>One job of a batch\<close>

lemma report_text_single: "l \<noteq> [] \<Longrightarrow> report_text [l] = l"
  by (simp add: report_text_def)



lemma convert_upload_read_fails:
  assumes "read_vector_any env src_path w = (Inl e, w1)"
  shows "convert_upload env opts out_fmt name_stem src_path w =
           ([''Read/Process failed: '' @ str_exn e], None, w1)"
  using assms by (simp add: convert_upload_def)

lemma fails_at_ingestionE:
  assumes "fails_at_ingestion env uf w"
  obtains src_path w1 e w2 where "stage_upload env uf w = (src_path, w1)"
    and "lower (path_suffix src_path) \<notin> set TAB_INPUTS"
    and "read_vector_any env src_path w1 = (Inl e, w2)"
proof -
  obtain src_path w1 where st: "stage_upload env uf w = (src_path, w1)"
    by (cases "stage_upload env uf w")
  obtain res w2 where rd: "read_vector_any env src_path w1 = (res, w2)"
    by (cases "read_vector_any env src_path w1")
  from assms st rd have nt: "lower (path_suffix src_path) \<notin> set TAB_INPUTS"
    and "case res of Inl e \<Rightarrow> True | Inr g \<Rightarrow> False"
    by (simp_all add: fails_at_ingestion_def)
  then obtain e where "res = Inl e"
    by (cases res) simp_all
  with st nt rd that show thesis
    by blast
qed

lemma process_upload_ingestion_failure:
  assumes "fails_at_ingestion env uf w"
  shows "\<exists>e w'. process_upload env opts out_fmt (z, r, w) uf =
           (z @ [(report_name (path_stem (up_name uf)), ''Read/Process failed: '' @ str_exn e)],
            r @ [(report_name (path_stem (up_name uf)), ''Read/Process failed: '' @ str_exn e)],
            w')"
proof -
  from assms obtain src_path w1 e w2 where st: "stage_upload env uf w = (src_path, w1)"
    and nt: "lower (path_suffix src_path) \<notin> set TAB_INPUTS"
    and rd: "read_vector_any env src_path w1 = (Inl e, w2)"
    by (rule fails_at_ingestionE)
  have "process_upload env opts out_fmt (z, r, w) uf =
           (z @ [(report_name (path_stem (up_name uf)), ''Read/Process failed: '' @ str_exn e)],
            r @ [(report_name (path_stem (up_name uf)), ''Read/Process failed: '' @ str_exn e)],
            w2)"
    using st nt
    by (simp add: process_upload_def Let_def convert_upload_read_fails [OF rd] report_text_single)
  then show ?thesis by blast
qed



subsection \<open>The loop\<close>



lemma output_entries_length:
  "length (output_entries z) + length (report_entries z) = length z"
  by (simp add: output_entries_def report_entries_def sum_length_filter_compl add.commute)















end
